theory Spec2Isabelle
  imports Complex_Main "HOL-Library.Product_Lexorder"
begin

section \<open>Tables\<close>

text \<open>
  The program is a single script (\<^verbatim>\<open>app.py\<close>) that builds pandas data frames. A frame
  is modelled row by row: the column names in column order and the list of rows. Numeric
  cells are \<^typ>\<open>real option\<close>, \<^term>\<open>None\<close> standing for pandas' missing value (NaN);
  floating-point numbers are read as the real numbers they denote.
\<close>

datatype error = Exception string | KeyError string | ValueError string | TypeError string | NameError string

type_synonym cell = "real option"

record 'r df =
  columns :: "string list"
  rows :: "'r list"

type_synonym table = "cell list df"

section \<open>The dengue case table (lines 67--94)\<close>

text \<open>The literal dictionary \<^verbatim>\<open>dengue_data\<close>: column name and column values, in source order.\<close>

definition dengue_data :: "(string \<times> int list) list" where
  "dengue_data =
    [(''Year'',  [2013, 2014, 2015, 2016, 2017, 2018, 2019, 2020, 2021, 2022, 2023]),
     (''Jan'',   [0, 0, 0, 0, 1, 1, 0, 0, 0, 0, 0]),
     (''Feb'',   [0, 0, 0, 0, 0, 0, 0, 0, 0, 0, 0]),
     (''Mar'',   [0, 0, 1, 2, 0, 0, 0, 0, 1, 2, 1]),
     (''Apr'',   [0, 0, 0, 5, 0, 2, 0, 0, 0, 0, 1]),
     (''May'',   [0, 0, 2, 13, 0, 2, 1, 0, 0, 0, 3]),
     (''Jun'',   [0, 0, 2, 7, 0, 1, 2, 0, 0, 5, 9]),
     (''Jul'',   [1, 2, 0, 7, 0, 14, 27, 1, 2, 9, 25]),
     (''Aug'',   [1, 2, 55, 22, 6, 9, 684, 4, 12, 420, 148]),
     (''Sep'',   [36, 51, 813, 412, 135, 98, 4686, 16, 420, 1912, 1044]),
     (''Oct'',   [396, 907, 2317, 2053, 386, 444, 5581, 13, 2126, 2106, 1112]),
     (''Nov'',   [408, 479, 603, 770, 122, 142, 961, 0, 948, 565, 361]),
     (''Dec'',   [19, 15, 124, 16, 1, 4, 0, 4, 17, 20, 34]),
     (''Total'', [861, 1456, 3917, 3307, 651, 717, 11942, 38, 3526, 5039, 2738])]"

text \<open>
  \<^verbatim>\<open>pd.melt(frame, id_vars=[id_var], var_name=..., value_name=...)\<close>: every column other
  than the identifier column is unpivoted, column after column, each contributing one
  row per row of the wide frame. No \<^verbatim>\<open>value_vars\<close> is given, so no column is left out.
\<close>

definition melt ::
  "(string \<times> int list) list \<Rightarrow> string \<Rightarrow> string \<Rightarrow> string \<Rightarrow> error + (int \<times> string \<times> int) df" where
  "melt frame id_var var_name value_name =
     (case map_of frame id_var of
        None \<Rightarrow> Inl (KeyError id_var)
      | Some ids \<Rightarrow>
          Inr \<lparr>columns = [id_var, var_name, value_name],
               rows = concat (map (\<lambda>(name, vals). map (\<lambda>(i, v). (i, name, v)) (zip ids vals))
                                  (filter (\<lambda>(name, vals). name \<noteq> id_var) frame))\<rparr>)"

definition month_mapping :: "(string \<times> int) list" where
  "month_mapping =
    [(''Jan'', 1), (''Feb'', 2), (''Mar'', 3), (''Apr'', 4), (''May'', 5), (''Jun'', 6),
     (''Jul'', 7), (''Aug'', 8), (''Sep'', 9), (''Oct'', 10), (''Nov'', 11), (''Dec'', 12)]"

text \<open>
  \<^verbatim>\<open>dengue_df["Month"] = dengue_df["Month"].map(month_mapping)\<close>: a label without an entry
  in the dictionary becomes a missing value, which turns the column into a float column.
\<close>

definition map_month :: "(string \<times> int) list \<Rightarrow> (int \<times> string \<times> int) df \<Rightarrow> table" where
  "map_month mapping long =
     \<lparr>columns = columns long,
      rows = map (\<lambda>(y, label, v). [Some (of_int y), map_option of_int (map_of mapping label), Some (of_int v)])
                 (rows long)\<rparr>"

definition dengue_melted :: "error + (int \<times> string \<times> int) df" where
  "dengue_melted = melt dengue_data ''Year'' ''Month'' ''Dengue Cases''"

definition dengue_df :: "error + table" where
  "dengue_df = (case dengue_melted of Inl e \<Rightarrow> Inl e | Inr long \<Rightarrow> Inr (map_month month_mapping long))"

text \<open>The sum of the twelve month cells of row \<open>i\<close> of the wide table.\<close>

definition month_cells :: "(string \<times> int list) list \<Rightarrow> nat \<Rightarrow> int list" where
  "month_cells frame i =
     concat (map (\<lambda>(label, n). case map_of frame label of None \<Rightarrow> [] | Some vals \<Rightarrow> [vals ! i]) month_mapping)"

section \<open>Climate frames\<close>

text \<open>
  A climate frame has a \<^verbatim>\<open>Date\<close> column besides its numeric columns. A cell of the
  \<^verbatim>\<open>Date\<close> column is the text received from the endpoint, a parsed timestamp (year, month,
  day), or missing (NaN in an object column, NaT in a datetime column). In a \<open>frame\<close>,
  \<^term>\<open>columns\<close> lists the numeric columns only and every row pairs the \<^verbatim>\<open>Date\<close> cell with
  the numeric cells; \<^verbatim>\<open>Date\<close> is the first column of every frame the script builds.
\<close>

type_synonym date = "int \<times> int \<times> int"

datatype date_cell = Text string | Stamp date | Missing

type_synonym frame = "(date_cell \<times> cell list) df"

definition rectangular :: "string list \<Rightarrow> cell list list \<Rightarrow> bool" where
  "rectangular names rs = list_all (\<lambda>cells. length cells = length names) rs"

fun position :: "'a \<Rightarrow> 'a list \<Rightarrow> nat" where
  "position x [] = 0"
| "position x (y # ys) = (if x = y then 0 else Suc (position x ys))"

text \<open>
  Column assignment \<^verbatim>\<open>data[name] = vals\<close>: an existing column is overwritten in place, a
  new one is appended; \<open>put_name\<close> is the effect on the column names, \<open>put_cell\<close> the
  effect on one row.
\<close>

definition put_name :: "string list \<Rightarrow> string \<Rightarrow> string list" where
  "put_name names name = (if name \<in> set names then names else names @ [name])"

definition put_cell :: "string list \<Rightarrow> string \<Rightarrow> cell \<Rightarrow> cell list \<Rightarrow> cell list" where
  "put_cell names name v cells =
     (if name \<in> set names then cells[position name names := v] else cells @ [v])"

definition set_column :: "string \<Rightarrow> cell list \<Rightarrow> frame \<Rightarrow> frame" where
  "set_column name vals data =
     \<lparr>columns = put_name (columns data) name,
      rows = map2 (\<lambda>v (d, cells). (d, put_cell (columns data) name v cells)) vals (rows data)\<rparr>"

definition set_date :: "date option list \<Rightarrow> frame \<Rightarrow> frame" where
  "set_date stamps data =
     data\<lparr>rows := map2 (\<lambda>s (d, cells). (case s of None \<Rightarrow> Missing | Some t \<Rightarrow> Stamp t, cells)) stamps (rows data)\<rparr>"

text \<open>
  \<^verbatim>\<open>pd.to_datetime\<close> on the \<^verbatim>\<open>Date\<close> column. The reader of date texts is pandas' own and is
  a parameter \<open>parse\<close> of the model: it yields the timestamp or the message of the
  \<^verbatim>\<open>ValueError\<close> that pandas raises. One unreadable text fails the whole conversion.
\<close>

fun to_datetime :: "(string \<Rightarrow> string + date) \<Rightarrow> date_cell list \<Rightarrow> error + date option list" where
  "to_datetime parse [] = Inr []"
| "to_datetime parse (c # cs) =
     (case (case c of Text s \<Rightarrow> (case parse s of Inl m \<Rightarrow> Inl (ValueError m) | Inr t \<Rightarrow> Inr (Some t))
                    | Stamp t \<Rightarrow> Inr (Some t)
                    | Missing \<Rightarrow> Inr None) of
        Inl e \<Rightarrow> Inl e
      | Inr t \<Rightarrow> (case to_datetime parse cs of Inl e \<Rightarrow> Inl e | Inr ts \<Rightarrow> Inr (t # ts)))"

definition dt_year :: "date option \<Rightarrow> cell" where
  "dt_year s = map_option (\<lambda>(y, m, d). of_int y) s"

definition dt_month :: "date option \<Rightarrow> cell" where
  "dt_month s = map_option (\<lambda>(y, m, d). of_int m) s"

section \<open>Grouping and means\<close>

text \<open>
  \<^verbatim>\<open>groupby\<close> collects the rows of each key into a bucket, the keys ascending; rows whose
  key has a missing component are dropped (\<^verbatim>\<open>dropna=True\<close>, the default).
\<close>

fun insert_group :: "'k::linorder \<Rightarrow> 'r \<Rightarrow> ('k \<times> 'r list) list \<Rightarrow> ('k \<times> 'r list) list" where
  "insert_group k r [] = [(k, [r])]"
| "insert_group k r ((k', bucket) # groups) =
     (if k = k' then (k', bucket @ [r]) # groups
      else if k < k' then (k, [r]) # (k', bucket) # groups
      else (k', bucket) # insert_group k r groups)"

definition group_rows :: "('r \<Rightarrow> 'k::linorder option) \<Rightarrow> 'r list \<Rightarrow> ('k \<times> 'r list) list" where
  "group_rows key rs =
     foldl (\<lambda>groups r. case key r of None \<Rightarrow> groups | Some k \<Rightarrow> insert_group k r groups) [] rs"

fun present :: "cell list \<Rightarrow> real list" where
  "present [] = []"
| "present (None # cs) = present cs"
| "present (Some x # cs) = x # present cs"

text \<open>The mean and the sum of a column of a group skip missing cells; the mean of no value is missing, the sum of no value is 0.\<close>

definition mean :: "cell list \<Rightarrow> cell" where
  "mean cs = (if present cs = [] then None else Some (sum_list (present cs) / real (length (present cs))))"

definition total :: "cell list \<Rightarrow> cell" where
  "total cs = Some (sum_list (present cs))"

definition key1 :: "nat \<Rightarrow> cell list \<Rightarrow> real option" where
  "key1 i cells = cells ! i"

definition key2 :: "nat \<Rightarrow> nat \<Rightarrow> cell list \<Rightarrow> (real \<times> real) option" where
  "key2 i j cells = (case cells ! i of None \<Rightarrow> None
                     | Some a \<Rightarrow> (case cells ! j of None \<Rightarrow> None | Some b \<Rightarrow> Some (a, b)))"

text \<open>
  \<^verbatim>\<open>data.groupby([k1, k2]).mean().reset_index()\<close>. The call passes no \<^verbatim>\<open>numeric_only\<close>, so
  which columns are averaged is decided by the default of the installed pandas, a parameter
  \<open>numeric_only\<close> of the model:
  \<^item> before pandas 2.0 the default averages the numeric columns only, and the \<^verbatim>\<open>Date\<close>
    column does not appear in the result;
  \<^item> from pandas 2.0 the default averages every column: a \<^verbatim>\<open>Date\<close> column of timestamps
    is kept and holds the mean timestamp of each group, and a \<^verbatim>\<open>Date\<close> column that still
    holds text makes the call raise \<^verbatim>\<open>TypeError\<close>.
  A timestamp of the result is represented by its position on the time axis, which the
  parameter \<open>epoch\<close> assigns to a date. The two keys come back as the first two columns,
  the other columns follow in their order.
\<close>

definition timestamp :: "(date \<Rightarrow> real) \<Rightarrow> date_cell \<Rightarrow> cell" where
  "timestamp epoch d = (case d of Stamp t \<Rightarrow> Some (epoch t) | _ \<Rightarrow> None)"

definition has_text :: "date_cell list \<Rightarrow> bool" where
  "has_text ds = list_ex (\<lambda>d. case d of Text s \<Rightarrow> True | _ \<Rightarrow> False) ds"

definition groupby_mean :: "bool \<Rightarrow> (date \<Rightarrow> real) \<Rightarrow> string \<Rightarrow> string \<Rightarrow> frame \<Rightarrow> error + table" where
  "groupby_mean numeric_only epoch k1 k2 data =
     (if k1 \<notin> set (columns data) then Inl (KeyError k1)
      else if k2 \<notin> set (columns data) then Inl (KeyError k2)
      else if \<not> numeric_only \<and> has_text (map fst (rows data))
      then Inl (TypeError ''agg function failed [how->mean,dtype->object]'')
      else
        let others = filter (\<lambda>c. c \<noteq> k1 \<and> c \<noteq> k2) (columns data);
            groups = group_rows (\<lambda>row. key2 (position k1 (columns data)) (position k2 (columns data)) (snd row))
                                (rows data)
        in Inr \<lparr>columns = k1 # k2 # (if numeric_only then [] else [''Date'']) @ others,
                rows = map (\<lambda>((a, b), bucket).
                              Some a # Some b #
                              (if numeric_only then [] else [mean (map (\<lambda>row. timestamp epoch (fst row)) bucket)]) @
                              map (\<lambda>c. mean (map (\<lambda>row. snd row ! position c (columns data)) bucket)) others)
                           groups\<rparr>)"

section \<open>Monthly aggregation (lines 60--65)\<close>

text \<open>
  \<^verbatim>\<open>process_monthly_data\<close> assigns to three columns of its argument before grouping, so the
  caller's frame changes; the model returns the changed frame together with the result.
  Besides the frame it takes what the installed pandas decides: the default \<open>numeric_only\<close>
  and the time axis \<open>epoch\<close> of the grouped mean, and the reader \<open>parse\<close> of date texts.
\<close>

definition process_monthly_data ::
  "bool \<Rightarrow> (date \<Rightarrow> real) \<Rightarrow> (string \<Rightarrow> string + date) \<Rightarrow> frame \<Rightarrow> error + (frame \<times> table)" where
  "process_monthly_data numeric_only epoch parse data =
     (case to_datetime parse (map fst (rows data)) of
        Inl e \<Rightarrow> Inl e
      | Inr stamps \<Rightarrow>
          let data1 = set_date stamps data;
              data2 = set_column ''Year'' (map dt_year stamps) data1;
              data3 = set_column ''Month'' (map dt_month stamps) data2
          in (case groupby_mean numeric_only epoch ''Year'' ''Month'' data3 of
                Inl e \<Rightarrow> Inl e
              | Inr monthly_avg \<Rightarrow> Inr (data3, monthly_avg)))"

section \<open>Join with the case table (line 124)\<close>

text \<open>
  \<^verbatim>\<open>pd.merge(left, right, on=["Year", "Month"], how="left")\<close>: the rows of \<open>left\<close> in
  their order; each is extended by the other columns of every row of \<open>right\<close> with an
  equal key, or by missing values when there is none. pandas compares keys by value and
  lets a missing key match a missing key. A column name other than the keys that both
  sides carry gets the suffixes \<^verbatim>\<open>_x\<close> and \<^verbatim>\<open>_y\<close>.
\<close>

definition join_key :: "string list \<Rightarrow> cell list \<Rightarrow> cell \<times> cell" where
  "join_key names cells = (cells ! position ''Year'' names, cells ! position ''Month'' names)"

definition other_cells :: "string list \<Rightarrow> cell list \<Rightarrow> cell list" where
  "other_cells names cells =
     map snd (filter (\<lambda>(name, c). name \<noteq> ''Year'' \<and> name \<noteq> ''Month'') (zip names cells))"

definition merge_left :: "table \<Rightarrow> table \<Rightarrow> error + table" where
  "merge_left left right =
     (if ''Year'' \<notin> set (columns left) \<or> ''Year'' \<notin> set (columns right) then Inl (KeyError ''Year'')
      else if ''Month'' \<notin> set (columns left) \<or> ''Month'' \<notin> set (columns right) then Inl (KeyError ''Month'')
      else
        let others = filter (\<lambda>name. name \<noteq> ''Year'' \<and> name \<noteq> ''Month'') (columns right);
            keys = {''Year'', ''Month''}
        in Inr \<lparr>columns =
                  map (\<lambda>name. if name \<in> set others then name @ ''_x'' else name) (columns left) @
                  map (\<lambda>name. if name \<in> set (columns left) then name @ ''_y'' else name) others,
                rows = concat (map (\<lambda>a.
                   case filter (\<lambda>b. join_key (columns right) b = join_key (columns left) a) (rows right) of
                     [] \<Rightarrow> [a @ replicate (length others) None]
                   | ms \<Rightarrow> map (\<lambda>b. a @ other_cells (columns right) b) ms) (rows left))\<rparr>)"

section \<open>Row filter and yearly overview (lines 129--130, 154)\<close>

text \<open>\<^verbatim>\<open>t[t[name] >= bound]\<close>: a comparison with a missing value is false.\<close>

definition filter_ge :: "string \<Rightarrow> real \<Rightarrow> table \<Rightarrow> error + table" where
  "filter_ge name bound t =
     (if name \<notin> set (columns t) then Inl (KeyError name)
      else Inr (t\<lparr>rows := filter (\<lambda>cells. case cells ! position name (columns t) of
                                             None \<Rightarrow> False | Some v \<Rightarrow> bound \<le> v) (rows t)\<rparr>))"

text \<open>\<^verbatim>\<open>groupby("Year").agg({"T2M": "mean", "PRECTOTCORR": "mean", "Dengue Cases": "sum"}).reset_index()\<close>.\<close>

definition yearly_overview :: "table \<Rightarrow> error + table" where
  "yearly_overview t =
     (case filter (\<lambda>name. name \<notin> set (columns t)) [''Year'', ''T2M'', ''PRECTOTCORR'', ''Dengue Cases''] of
        name # _ \<Rightarrow> Inl (KeyError name)
      | [] \<Rightarrow>
          let col = (\<lambda>name bucket. map (\<lambda>cells. cells ! position name (columns t)) bucket)
          in Inr \<lparr>columns = [''Year'', ''T2M'', ''PRECTOTCORR'', ''Dengue Cases''],
                  rows = map (\<lambda>(y, bucket). [Some y, mean (col ''T2M'' bucket),
                                               mean (col ''PRECTOTCORR'' bucket),
                                               total (col ''Dengue Cases'' bucket)])
                             (group_rows (key1 (position ''Year'' (columns t))) (rows t))\<rparr>)"

section \<open>Fetching the climate series (lines 26--57)\<close>

text \<open>
  What the user interface is asked to show, in order. A chart is recorded with its title and
  the table it is drawn from.
\<close>

datatype event =
    StWarning string
  | StError string
  | StSubheader string
  | StTitle string
  | StChart string table
  | StTable "(string \<times> int list) list"

text \<open>
  The decoded JSON document, as far as the function looks into it: the key
  \<^verbatim>\<open>properties\<close> may be absent, the key \<^verbatim>\<open>parameter\<close> below it may be absent, or
  \<^verbatim>\<open>parameter\<close> maps each delivered variable code to its series, a dictionary from date
  text to number (its items in document order, the keys of a dictionary being distinct).
\<close>

type_synonym series = "(string \<times> real) list"

datatype document = No_properties | No_parameter | Parameter "(string \<times> series) list"

record response =
  status_code :: int
  response_text :: string
  json :: "error + document"

record query =
  q_parameters :: string
  q_community :: string
  q_latitude :: real
  q_longitude :: real
  q_start :: string
  q_end :: string
  q_format :: string

definition BASE_URL :: string where
  "BASE_URL = ''https://power.larc.nasa.gov/api/temporal/daily/point''"

text \<open>\<^verbatim>\<open>",".join(parameters)\<close>.\<close>

fun join :: "string \<Rightarrow> string list \<Rightarrow> string" where
  "join sep [] = []"
| "join sep [x] = x"
| "join sep (x # y # ys) = x @ sep @ join sep (y # ys)"

text \<open>Python's \<^verbatim>\<open>str\<close> of an integer, as the f-string formats the status code.\<close>

fun digits :: "nat \<Rightarrow> string" where
  "digits n = (if n < 10 then [''0123456789'' ! n]
               else digits (n div 10) @ [''0123456789'' ! (n mod 10)])"

declare digits.simps [simp del]

definition str_int :: "int \<Rightarrow> string" where
  "str_int i = (if i < 0 then CHR ''-'' # digits (nat (- i)) else digits (nat i))"

text \<open>\<^verbatim>\<open>pd.DataFrame(series.items(), columns=["Date", param])\<close>.\<close>

definition DataFrame :: "series \<Rightarrow> string \<Rightarrow> frame" where
  "DataFrame items param = \<lparr>columns = [param], rows = map (\<lambda>(d, v). (Text d, [Some v])) items\<rparr>"

text \<open>\<^verbatim>\<open>result[param] = df\<close> on a dictionary that keeps insertion order.\<close>

fun dict_set :: "(string \<times> 'v) list \<Rightarrow> string \<Rightarrow> 'v \<Rightarrow> (string \<times> 'v) list" where
  "dict_set [] k v = [(k, v)]"
| "dict_set ((k', v') # kvs) k v = (if k = k' then (k', v) # kvs else (k', v') # dict_set kvs k v)"

definition unavailable :: "string \<Rightarrow> string" where
  "unavailable param =
     ''Parameter '' @ [CHR 0x27] @ param @ [CHR 0x27] @ '' is not available for the given location and time range.''"

text \<open>The loop over the requested codes (lines 46--55), with the result dictionary and the warnings shown so far.\<close>

fun collect ::
  "(string \<times> series) list \<Rightarrow> string list \<Rightarrow> (string \<times> frame) list \<times> event list
     \<Rightarrow> (string \<times> frame) list \<times> event list" where
  "collect available [] acc = acc"
| "collect available (param # params) (result, shown) =
     (case map_of available param of
        Some items \<Rightarrow> collect available params (dict_set result param (DataFrame items param), shown)
      | None \<Rightarrow> collect available params (result, shown @ [StWarning (unavailable param)]))"

text \<open>
  The remote endpoint is a parameter \<open>get\<close>: the answer of \<^verbatim>\<open>requests.get\<close> to a URL and a
  query, either an exception of the HTTP library or a response.
\<close>

definition params :: "real \<Rightarrow> real \<Rightarrow> string \<Rightarrow> string \<Rightarrow> string list \<Rightarrow> query" where
  "params la lo start end' parameters =
     \<lparr>q_parameters = join '','' parameters, q_community = ''AG'', q_latitude = la,
      q_longitude = lo, q_start = start, q_end = end', q_format = ''JSON''\<rparr>"

definition fetch_nasa_data ::
  "(string \<Rightarrow> query \<Rightarrow> error + response) \<Rightarrow> real \<Rightarrow> real \<Rightarrow> string \<Rightarrow> string \<Rightarrow> string list
     \<Rightarrow> error + ((string \<times> frame) list \<times> event list)" where
  "fetch_nasa_data get la lo start end' parameters =
     (case get BASE_URL (params la lo start end' parameters) of
        Inl e \<Rightarrow> Inl e
      | Inr response \<Rightarrow>
          if status_code response \<noteq> 200
          then Inl (Exception (''Error fetching data: '' @ str_int (status_code response) @ '' - '' @ response_text response))
          else (case json response of
                  Inl e \<Rightarrow> Inl e
                | Inr No_properties \<Rightarrow> Inl (Exception ''No climate data found for the given parameters.'')
                | Inr No_parameter \<Rightarrow> Inl (Exception ''No climate data found for the given parameters.'')
                | Inr (Parameter available) \<Rightarrow> Inr (collect available parameters ([], []))))"

section \<open>The pipeline inside the try block (lines 110--176)\<close>

text \<open>
  \<^verbatim>\<open>pd.concat(all_data, axis=1)\<close> puts the frames side by side, aligned on the row number and
  padded with missing values; \<^verbatim>\<open>.loc[:, ~columns.duplicated()]\<close> then keeps the first column
  of every name, so the \<^verbatim>\<open>Date\<close> column of the first frame stays.
\<close>

fun first_occurrence :: "string list \<Rightarrow> string list \<Rightarrow> bool list" where
  "first_occurrence seen [] = []"
| "first_occurrence seen (n # ns) = (n \<notin> set seen) # first_occurrence (n # seen) ns"

definition select :: "bool list \<Rightarrow> 'a list \<Rightarrow> 'a list" where
  "select keep xs = map snd (filter fst (zip keep xs))"

definition concat_columns :: "frame list \<Rightarrow> error + frame" where
  "concat_columns frames =
     (case frames of
        [] \<Rightarrow> Inl (ValueError ''No objects to concatenate'')
      | first # others \<Rightarrow>
          let n = foldr max (map (\<lambda>f. length (rows f)) frames) 0;
              names = concat (map columns frames);
              keep = first_occurrence [] names;
              date_at = (\<lambda>i. if i < length (rows first) then fst (rows first ! i) else Missing);
              cells_at = (\<lambda>i. concat (map (\<lambda>f. if i < length (rows f) then snd (rows f ! i)
                                                   else replicate (length (columns f)) None) frames))
          in Inr \<lparr>columns = select keep names,
                  rows = map (\<lambda>i. (date_at i, select keep (cells_at i))) [0..<n]\<rparr>)"

definition str_error :: "error \<Rightarrow> string" where
  "str_error e = (case e of Exception m \<Rightarrow> m | KeyError k \<Rightarrow> [CHR 0x27] @ k @ [CHR 0x27]
                    | ValueError m \<Rightarrow> m | TypeError m \<Rightarrow> m | NameError m \<Rightarrow> m)"

text \<open>The variables the block binds, unbound ones being \<^term>\<open>None\<close>, and what it has shown.\<close>

record state =
  events :: "event list"
  combined_data :: "frame option"
  monthly_data :: "table option"
  final_df :: "table option"
  year_avg :: "table option"

definition start_state :: state where
  "start_state = \<lparr>events = [], combined_data = None, monthly_data = None, final_df = None, year_avg = None\<rparr>"

definition show_event :: "event list \<Rightarrow> state \<Rightarrow> state" where
  "show_event es s = s\<lparr>events := events s @ es\<rparr>"

text \<open>\<^verbatim>\<open>except Exception as e: st.error(f"Error fetching data: {e}")\<close>.\<close>

definition handler :: "error \<Rightarrow> state \<Rightarrow> state" where
  "handler e s = show_event [StError (''Error fetching data: '' @ str_error e)] s"

definition start_date :: string where
  "start_date = ''20130101''"

definition end_date :: string where
  "end_date = ''20231201''"

definition lat :: real where
  "lat = 33.6"

definition lon :: real where
  "lon = 73.0"

definition parameters :: "string list" where
  "parameters = [''T2M'', ''PRECTOTCORR'']"

definition trend_charts :: "table \<Rightarrow> event list" where
  "trend_charts final =
     (if ''T2M'' \<in> set (columns final) then [StChart ''Monthly Temperature Trends'' final] else []) @
     (if ''PRECTOTCORR'' \<in> set (columns final) then [StChart ''Monthly Rainfall Trends (mm)'' final] else []) @
     [StChart ''Monthly Dengue Cases'' final]"

definition pipeline ::
  "bool \<Rightarrow> (date \<Rightarrow> real) \<Rightarrow> (string \<Rightarrow> string + date) \<Rightarrow> (string \<Rightarrow> query \<Rightarrow> error + response)
     \<Rightarrow> table \<Rightarrow> state" where
  "pipeline numeric_only epoch parse get cases =
     (case fetch_nasa_data get lat lon start_date end_date parameters of
        Inl e \<Rightarrow> handler e start_state
      | Inr (climate_data, warnings) \<Rightarrow>
     let s0 = show_event warnings start_state in
     (case concat_columns (map snd climate_data) of
        Inl e \<Rightarrow> handler e s0
      | Inr combined \<Rightarrow>
     let s1 = s0\<lparr>combined_data := Some combined\<rparr> in
     (case to_datetime parse (map fst (rows combined)) of
        Inl e \<Rightarrow> handler e s1
      | Inr stamps \<Rightarrow>
     let s2 = s1\<lparr>combined_data := Some (set_date stamps combined)\<rparr> in
     (case process_monthly_data numeric_only epoch parse (set_date stamps combined) of
        Inl e \<Rightarrow> handler e s2
      | Inr (combined', monthly) \<Rightarrow>
     let s3 = s2\<lparr>combined_data := Some combined', monthly_data := Some monthly\<rparr> in
     (case merge_left monthly cases of
        Inl e \<Rightarrow> handler e s3
      | Inr final \<Rightarrow>
     let s4 = show_event [StSubheader ''Monthly Trends of Temperature, Rainfall, and Dengue Cases'']
                (s3\<lparr>final_df := Some final\<rparr>) in
     (case filter_ge ''T2M'' (- 5) monthly of
        Inl e \<Rightarrow> handler e s4
      | Inr monthly' \<Rightarrow>
     let s5 = s4\<lparr>monthly_data := Some monthly'\<rparr> in
     (case filter_ge ''PRECTOTCORR'' 0 monthly' of
        Inl e \<Rightarrow> handler e s5
      | Inr monthly'' \<Rightarrow>
     let s6 = show_event (trend_charts final @ [StSubheader ''Yearly Overview''])
                (s5\<lparr>monthly_data := Some monthly''\<rparr>) in
     (case yearly_overview final of
        Inl e \<Rightarrow> handler e s6
      | Inr overview \<Rightarrow>
          show_event [StChart ''Yearly Temperature and Rainfall Trends'' overview,
                      StChart ''Yearly Dengue Cases'' overview,
                      StTitle ''Dengue Cases Over the Years'',
                      StTable dengue_data]
            (s6\<lparr>year_avg := Some overview\<rparr>)))))))))"

section \<open>The first statement after the try block (line 202)\<close>

text \<open>
  After the try block the script goes on at module level with
  \<^verbatim>\<open>display_correlation_with_year_month(final_df)\<close>. Evaluating the argument looks the name
  \<^verbatim>\<open>final_df\<close> up; a name that the try block has not bound raises \<^verbatim>\<open>NameError\<close>. The
  statement is outside every handler, so the exception ends the run: Streamlit shows it,
  and none of the later statements is executed.
\<close>

definition final_df_at_line_202 :: "state \<Rightarrow> error + table" where
  "final_df_at_line_202 s =
     (case final_df s of
        None \<Rightarrow> Inl (NameError (''name '' @ [CHR 0x27] @ ''final_df'' @ [CHR 0x27] @ '' is not defined''))
      | Some t \<Rightarrow> Inr t)"

section \<open>What the monthly aggregation is to compute\<close>

text \<open>
  The definitions of this section state the aggregation in terms of the input frame; the
  theorems below relate \<^verbatim>\<open>process_monthly_data\<close> to them.
\<close>

text \<open>The timestamp that \<^verbatim>\<open>pd.to_datetime\<close> gives a \<^verbatim>\<open>Date\<close> cell, if any.\<close>

definition date_of :: "(string \<Rightarrow> string + date) \<Rightarrow> date_cell \<Rightarrow> date option" where
  "date_of parse c =
     (case c of Text s \<Rightarrow> (case parse s of Inl m \<Rightarrow> None | Inr t \<Rightarrow> Some t)
              | Stamp t \<Rightarrow> Some t
              | Missing \<Rightarrow> None)"

text \<open>Every date text of the column is readable.\<close>

definition parseable :: "(string \<Rightarrow> string + date) \<Rightarrow> date_cell list \<Rightarrow> bool" where
  "parseable parse cs = list_all (\<lambda>c. case c of Text s \<Rightarrow> \<not> isl (parse s) | _ \<Rightarrow> True) cs"

text \<open>A cell of a datetime column.\<close>

definition stamp_cell :: "date option \<Rightarrow> date_cell" where
  "stamp_cell s = (case s of None \<Rightarrow> Missing | Some t \<Rightarrow> Stamp t)"

text \<open>The effect of the three column assignments of \<^verbatim>\<open>process_monthly_data\<close> (lines 61--63) on one row, and on the frame.\<close>

definition assign :: "(string \<Rightarrow> string + date) \<Rightarrow> string list \<Rightarrow> date_cell \<times> cell list \<Rightarrow> date_cell \<times> cell list" where
  "assign parse names row =
     (stamp_cell (date_of parse (fst row)),
      put_cell (put_name names ''Year'') ''Month'' (dt_month (date_of parse (fst row)))
        (put_cell names ''Year'' (dt_year (date_of parse (fst row))) (snd row)))"

text \<open>The (year, month) pair of a row, derived from its date.\<close>

definition year_month :: "(string \<Rightarrow> string + date) \<Rightarrow> date_cell \<times> cell list \<Rightarrow> (real \<times> real) option" where
  "year_month parse row = map_option (\<lambda>(y, m, d). (of_int y, of_int m)) (date_of parse (fst row))"

text \<open>The numeric columns that are not grouping keys.\<close>

definition value_columns :: "string list \<Rightarrow> string list" where
  "value_columns names = filter (\<lambda>c. c \<noteq> ''Year'' \<and> c \<noteq> ''Month'') names"

text \<open>The mean of column \<open>c\<close> over the rows of the frame whose date falls in the year and month \<open>k\<close>.\<close>

definition month_mean :: "(string \<Rightarrow> string + date) \<Rightarrow> frame \<Rightarrow> real \<times> real \<Rightarrow> string \<Rightarrow> cell" where
  "month_mean parse data k c =
     mean (map (\<lambda>row. snd row ! position c (columns data))
               (filter (\<lambda>row. year_month parse row = Some k) (rows data)))"

text \<open>The mean position on the time axis of the dates that fall in the year and month \<open>k\<close>.\<close>

definition month_stamp_mean :: "(date \<Rightarrow> real) \<Rightarrow> (string \<Rightarrow> string + date) \<Rightarrow> frame \<Rightarrow> real \<times> real \<Rightarrow> cell" where
  "month_stamp_mean epoch parse data k =
     mean (map (\<lambda>row. map_option epoch (date_of parse (fst row)))
               (filter (\<lambda>row. year_month parse row = Some k) (rows data)))"

text \<open>
  The rows of the frame whose date falls in the year and month \<open>k\<close>, and the values that a
  list of cells holds, the missing ones left out.
\<close>

definition rows_in_month :: "(string \<Rightarrow> string + date) \<Rightarrow> frame \<Rightarrow> real \<times> real \<Rightarrow> (date_cell \<times> cell list) list" where
  "rows_in_month parse data k = filter (\<lambda>row. year_month parse row = Some k) (rows data)"

definition observed :: "cell list \<Rightarrow> real list" where
  "observed cs = concat (map (\<lambda>c. case c of None \<Rightarrow> [] | Some x \<Rightarrow> [x]) cs)"

definition assigned :: "(string \<Rightarrow> string + date) \<Rightarrow> frame \<Rightarrow> frame" where
  "assigned parse data =
     \<lparr>columns = put_name (put_name (columns data) ''Year'') ''Month'',
      rows = map (assign parse (columns data)) (rows data)\<rparr>"

text \<open>The case count that the case table records for a (year, month) key: that of the first row with this key, missing when there is none.\<close>

definition case_count :: "table \<Rightarrow> cell \<times> cell \<Rightarrow> cell" where
  "case_count cases k =
     (case find (\<lambda>b. join_key (columns cases) b = k) (rows cases) of
        None \<Rightarrow> None
      | Some b \<Rightarrow> b ! position ''Dengue Cases'' (columns cases))"

section \<open>A reader for the endpoint's date format\<close>

text \<open>
  The endpoint writes dates as eight digits \<^verbatim>\<open>YYYYMMDD\<close>. This reader of that format is
  the instance of \<open>parse\<close> used in the examples below.
\<close>

definition digit_value :: "char \<Rightarrow> nat option" where
  "digit_value c = map_of [(CHR ''0'', 0), (CHR ''1'', 1), (CHR ''2'', 2), (CHR ''3'', 3), (CHR ''4'', 4),
                           (CHR ''5'', 5), (CHR ''6'', 6), (CHR ''7'', 7), (CHR ''8'', 8), (CHR ''9'', 9)] c"

definition yyyymmdd :: "string \<Rightarrow> string + date" where
  "yyyymmdd s =
     (case those (map digit_value s) of
        Some [a, b, c, d, e, f, g, h] \<Rightarrow>
          (let m = 10 * e + f; dd = 10 * g + h
           in if 1 \<le> m \<and> m \<le> 12 \<and> 1 \<le> dd \<and> dd \<le> 31
              then Inr (int (1000 * a + 100 * b + 10 * c + d), int m, int dd)
              else Inl (''Unknown datetime string format, unable to parse: '' @ s))
      | _ \<Rightarrow> Inl (''Unknown datetime string format, unable to parse: '' @ s))"

text \<open>
  A time axis for the examples: the number of days from 1 January 1970 to a date of the
  Gregorian calendar.
\<close>

definition days_from_civil :: "date \<Rightarrow> real" where
  "days_from_civil t =
     (case t of (y, m, d) \<Rightarrow>
        let y' = (if m \<le> 2 then y - 1 else y);
            era = y' div 400;
            yoe = y' - era * 400;
            doy = (153 * (if 2 < m then m - 3 else m + 9) + 2) div 5 + d - 1;
            doe = yoe * 365 + yoe div 4 - yoe div 100 + doy
        in of_int (era * 146097 + doe - 719468))"

section \<open>Example inputs\<close>

text \<open>An endpoint that answers 404.\<close>

definition not_found :: "string \<Rightarrow> query \<Rightarrow> error + response" where
  "not_found u q = Inr \<lparr>status_code = 404, response_text = ''Not Found'', json = Inl (ValueError ''Expecting value'')\<rparr>"

text \<open>An endpoint that delivers the temperature series only.\<close>

definition only_temperature :: "string \<Rightarrow> query \<Rightarrow> error + response" where
  "only_temperature u q = Inr \<lparr>status_code = 200, response_text = [],
      json = Inr (Parameter [(''T2M'', [(''20190715'', 30)])])\<rparr>"

text \<open>Two small climate frames: three days in two months, and one day in each of two months.\<close>

definition july_august :: frame where
  "july_august =
     \<lparr>columns = [''T2M'', ''PRECTOTCORR''],
      rows = [(Text ''20190715'', [Some 30, Some 5]),
              (Text ''20190801'', [Some 28, Some 0]),
              (Text ''20190716'', [Some 32, Some 7])]\<rparr>"

definition one_day_per_month :: frame where
  "one_day_per_month =
     \<lparr>columns = [''T2M'', ''PRECTOTCORR''],
      rows = [(Text ''20190801'', [Some 28, Some 0]),
              (Text ''20190715'', [Some 30, Some 5])]\<rparr>"

text \<open>A monthly aggregate with a month of the case table and a month outside it.\<close>

definition two_months :: table where
  "two_months =
     \<lparr>columns = [''Year'', ''Month'', ''T2M'', ''PRECTOTCORR''],
      rows = [[Some 2019, Some 7, Some 30, Some 5], [Some 2030, Some 1, Some 10, Some 1]]\<rparr>"

text \<open>An endpoint that delivers one day whose temperature is its fill value \<open>-999\<close> for a missing reading.\<close>

definition missing_reading :: "string \<Rightarrow> query \<Rightarrow> error + response" where
  "missing_reading u q = Inr \<lparr>status_code = 200, response_text = [],
      json = Inr (Parameter [(''T2M'', [(''20190715'', - 999)]), (''PRECTOTCORR'', [(''20190715'', 5)])])\<rparr>"

section \<open>Properties of the case table\<close>

lemma dengue_melted_rows:
  "dengue_melted = Inr \<lparr>columns = [''Year'', ''Month'', ''Dengue Cases''],
     rows = concat (map (\<lambda>(name, vals). map (\<lambda>(i, v). (i, name, v))
                (zip [2013, 2014, 2015, 2016, 2017, 2018, 2019, 2020, 2021, 2022, 2023] vals))
              (tl dengue_data))\<rparr>"
  by (simp add: dengue_melted_def melt_def dengue_data_def)

text \<open>
  Claim C3. For every year of the literal table (every row index of the wide frame), the
  twelve monthly counts Jan..Dec are all present and add up to the value of that row in the
  \<^verbatim>\<open>Total\<close> column.
\<close>

theorem dengue_total_is_sum_of_months:
  "map_of dengue_data ''Total'' = Some (map (\<lambda>i. sum_list (month_cells dengue_data i)) [0..<11])
   \<and> list_all (\<lambda>i. length (month_cells dengue_data i) = 12) [0..<11]
   \<and> map_option length (map_of dengue_data ''Year'') = Some 11"
  by (simp add: dengue_data_def month_cells_def month_mapping_def upt_rec)

lemma dengue_melted_ok: "\<not> isl dengue_melted"
  by (simp add: dengue_melted_rows)



section \<open>Properties of the fetcher\<close>

lemma map_of_dict_set: "map_of (dict_set kvs k v) = (map_of kvs)(k \<mapsto> v)"
  by (induction kvs) (auto simp: fun_eq_iff)

lemma keys_dict_set: "fst ` set (dict_set kvs k v) = insert k (fst ` set kvs)"
proof -
  have "dom (map_of (dict_set kvs k v)) = insert k (dom (map_of kvs))"
    by (simp add: map_of_dict_set)
  then show ?thesis
    by (simp add: dom_map_of_conv_image_fst)
qed

lemma distinct_dict_set: "distinct (map fst kvs) \<Longrightarrow> distinct (map fst (dict_set kvs k v))"
  by (induction kvs) (auto simp: keys_dict_set)

lemma collect_shown:
  "snd (collect available ps (result, shown)) =
     shown @ map (\<lambda>p. StWarning (unavailable p)) (filter (\<lambda>p. map_of available p = None) ps)"
  by (induction ps arbitrary: result shown) (auto split: option.splits)

lemma collect_keys:
  "set (map fst (fst (collect available ps (result, shown)))) =
     set (map fst result) \<union> {p \<in> set ps. map_of available p \<noteq> None}"
  by (induction ps arbitrary: result shown) (auto split: option.splits simp: keys_dict_set)

lemma collect_distinct:
  "distinct (map fst result) \<Longrightarrow> distinct (map fst (fst (collect available ps (result, shown))))"
  by (induction ps arbitrary: result shown) (auto split: option.splits simp: distinct_dict_set)

lemma collect_lookup:
  "map_of (fst (collect available ps (result, shown))) p =
     (if p \<in> set ps \<and> map_of available p \<noteq> None
      then map_option (\<lambda>items. DataFrame items p) (map_of available p)
      else map_of result p)"
  by (induction ps arbitrary: result shown) (auto split: option.splits simp: map_of_dict_set)

text \<open>
  Claim C6. When the endpoint answers with status 200 and a document that has the
  \<^verbatim>\<open>parameter\<close> dictionary, the call returns: it shows one warning for each requested
  code that the dictionary lacks, in request order, and the result dictionary has exactly
  the requested codes that are present, each once, each bound to the frame of its series.
\<close>

theorem absent_codes_warn_and_are_omitted:
  assumes "get BASE_URL (params la lo start end' ps) = Inr r"
    and "status_code r = 200"
    and "json r = Inr (Parameter available)"
  shows "\<exists>result shown. fetch_nasa_data get la lo start end' ps = Inr (result, shown)
     \<and> shown = map (\<lambda>p. StWarning (unavailable p)) (filter (\<lambda>p. map_of available p = None) ps)
     \<and> set (map fst result) = {p \<in> set ps. map_of available p \<noteq> None}
     \<and> distinct (map fst result)
     \<and> (\<forall>p \<in> set ps. map_of result p = map_option (\<lambda>items. DataFrame items p) (map_of available p))"
proof -
  obtain result shown where c: "collect available ps ([], []) = (result, shown)"
    by (cases "collect available ps ([], [])") auto
  have 1: "fetch_nasa_data get la lo start end' ps = Inr (result, shown)"
    using assms c by (simp add: fetch_nasa_data_def)
  have 2: "shown = map (\<lambda>p. StWarning (unavailable p)) (filter (\<lambda>p. map_of available p = None) ps)"
    using collect_shown[of available ps "[]" "[]"] c by simp
  have 3: "set (map fst result) = {p \<in> set ps. map_of available p \<noteq> None}"
    using collect_keys[of available ps "[]" "[]"] c by simp
  have 4: "distinct (map fst result)"
    using collect_distinct[of "[]" available ps "[]"] c by simp
  have 5: "\<forall>p \<in> set ps. map_of result p = map_option (\<lambda>items. DataFrame items p) (map_of available p)"
    using collect_lookup[of available ps "[]" "[]"] c by (auto split: if_splits)
  from 1 2 3 4 5 show ?thesis by blast
qed

text \<open>
  Claim C5 on the code. When the endpoint answers with a status other than 200, the fetcher
  raises an exception whose message holds the status code and the raw response text. In the
  script's own invocation the try block then shows exactly one error message and binds none
  of \<^verbatim>\<open>combined_data\<close>, \<^verbatim>\<open>monthly_data\<close>, \<^verbatim>\<open>final_df\<close>, \<^verbatim>\<open>year_avg\<close>: no aggregation and
  no join take place. The run does not end there: its next statement, on line 202, reads
  \<^verbatim>\<open>final_df\<close> and raises \<^verbatim>\<open>NameError\<close>, which nothing catches.
\<close>

theorem non_200_status_ends_in_name_error:
  assumes "get BASE_URL (params la lo start end' ps) = Inr r"
    and "status_code r \<noteq> 200"
  shows "fetch_nasa_data get la lo start end' ps =
           Inl (Exception (''Error fetching data: '' @ str_int (status_code r) @ '' - '' @ response_text r))
       \<and> ((la, lo, start, end', ps) = (lat, lon, start_date, end_date, parameters) \<longrightarrow>
            pipeline numeric_only epoch parse get cases =
              \<lparr>events = [StError (''Error fetching data: Error fetching data: '' @ str_int (status_code r)
                                     @ '' - '' @ response_text r)],
               combined_data = None, monthly_data = None, final_df = None, year_avg = None\<rparr>
          \<and> final_df_at_line_202 (pipeline numeric_only epoch parse get cases) =
              Inl (NameError (''name '' @ [CHR 0x27] @ ''final_df'' @ [CHR 0x27] @ '' is not defined'')))"
proof -
  have f: "fetch_nasa_data get la lo start end' ps =
           Inl (Exception (''Error fetching data: '' @ str_int (status_code r) @ '' - '' @ response_text r))"
    using assms by (simp add: fetch_nasa_data_def)
  have "pipeline numeric_only epoch parse get cases =
              \<lparr>events = [StError (''Error fetching data: Error fetching data: '' @ str_int (status_code r)
                                     @ '' - '' @ response_text r)],
               combined_data = None, monthly_data = None, final_df = None, year_avg = None\<rparr>
          \<and> final_df_at_line_202 (pipeline numeric_only epoch parse get cases) =
              Inl (NameError (''name '' @ [CHR 0x27] @ ''final_df'' @ [CHR 0x27] @ '' is not defined''))"
    if "(la, lo, start, end', ps) = (lat, lon, start_date, end_date, parameters)"
  proof -
    from that f have "fetch_nasa_data get lat lon start_date end_date parameters =
           Inl (Exception (''Error fetching data: '' @ str_int (status_code r) @ '' - '' @ response_text r))"
      by simp
    then have p: "pipeline numeric_only epoch parse get cases =
              \<lparr>events = [StError (''Error fetching data: Error fetching data: '' @ str_int (status_code r)
                                     @ '' - '' @ response_text r)],
               combined_data = None, monthly_data = None, final_df = None, year_avg = None\<rparr>"
      by (simp add: pipeline_def handler_def show_event_def start_state_def str_error_def)
    show ?thesis
      unfolding p by (simp add: final_df_at_line_202_def)
  qed
  with f show ?thesis by blast
qed

theorem non_200_status_ends_in_name_error_witness:
  "fetch_nasa_data not_found lat lon start_date end_date parameters =
      Inl (Exception ''Error fetching data: 404 - Not Found'')
   \<and> pipeline True days_from_civil yyyymmdd not_found (projr dengue_df) =
       \<lparr>events = [StError ''Error fetching data: Error fetching data: 404 - Not Found''],
        combined_data = None, monthly_data = None, final_df = None, year_avg = None\<rparr>
   \<and> final_df_at_line_202 (pipeline True days_from_civil yyyymmdd not_found (projr dengue_df)) =
       Inl (NameError (''name '' @ [CHR 0x27] @ ''final_df'' @ [CHR 0x27] @ '' is not defined''))"
  using non_200_status_ends_in_name_error[of not_found lat lon start_date end_date parameters
      "\<lparr>status_code = 404, response_text = ''Not Found'', json = Inl (ValueError ''Expecting value'')\<rparr>"
      True days_from_civil yyyymmdd "projr dengue_df"]
  by (simp add: not_found_def str_int_def digits.simps final_df_at_line_202_def)

theorem absent_codes_warn_and_are_omitted_witness:
  "fetch_nasa_data only_temperature lat lon start_date end_date parameters =
     Inr ([(''T2M'', \<lparr>columns = [''T2M''], rows = [(Text ''20190715'', [Some 30])]\<rparr>)],
          [StWarning (unavailable ''PRECTOTCORR'')])"
  using absent_codes_warn_and_are_omitted[of only_temperature lat lon start_date end_date parameters
      "\<lparr>status_code = 200, response_text = [], json = Inr (Parameter [(''T2M'', [(''20190715'', 30)])])\<rparr>"
      "[(''T2M'', [(''20190715'', 30)])]"]
  apply (simp add: only_temperature_def)
  apply (simp add: fetch_nasa_data_def only_temperature_def DataFrame_def parameters_def)
  done

section \<open>Properties of grouping\<close>

text \<open>The groups come out with strictly ascending keys, and the bucket of a key holds exactly the rows of that key, in their order.\<close>


lemma insert_group_keys: "fst ` set (insert_group k r g) = insert k (fst ` set g)"
proof (induction g)
  case Nil
  then show ?case by simp
next
  case (Cons p g)
  obtain k' b where p: "p = (k', b)" by (cases p)
  show ?case using Cons.IH by (simp add: p insert_commute)
qed

lemma insert_group_sorted:
  "sorted_wrt (<) (map fst g) \<Longrightarrow> sorted_wrt (<) (map fst (insert_group k r g))"
proof (induction g)
  case Nil
  then show ?case by simp
next
  case (Cons p g)
  obtain k' b where p: "p = (k', b)" by (cases p)
  have "\<forall>x \<in> set (map fst (insert_group k r g)). k' < x" if "k' < k"
    using Cons.prems that by (auto simp: p insert_group_keys)
  with Cons show ?case
    by (auto simp: p)
qed

lemma insert_group_lookup:
  "sorted_wrt (<) (map fst g) \<Longrightarrow>
   map_of (insert_group k r g) = (map_of g)(k \<mapsto> (case map_of g k of None \<Rightarrow> [r] | Some b \<Rightarrow> b @ [r]))"
proof (induction g)
  case Nil
  then show ?case by simp
next
  case (Cons p g)
  obtain k' b where p: "p = (k', b)" by (cases p)
  have nk: "map_of g k = None" if "k < k'"
  proof -
    have "k \<notin> fst ` set g" using Cons.prems that by (auto simp: p)
    then show ?thesis by (simp add: map_of_eq_None_iff)
  qed
  show ?case
  proof (cases "k = k'")
    case True
    then show ?thesis by (auto simp: p fun_eq_iff)
  next
    case False
    show ?thesis
    proof (cases "k < k'")
      case True
      with False nk show ?thesis by (auto simp: p fun_eq_iff)
    next
      case g: False
      with False Cons show ?thesis by (auto simp: p fun_eq_iff)
    qed
  qed
qed

lemma fold_groups:
  "sorted_wrt (<) (map fst g) \<Longrightarrow>
   sorted_wrt (<) (map fst (foldl (\<lambda>groups r. case key r of None \<Rightarrow> groups | Some k \<Rightarrow> insert_group k r groups) g rs))
   \<and> (\<forall>k. map_of (foldl (\<lambda>groups r. case key r of None \<Rightarrow> groups | Some k \<Rightarrow> insert_group k r groups) g rs) k =
        (case map_of g k of
           None \<Rightarrow> (if filter (\<lambda>r. key r = Some k) rs = [] then None else Some (filter (\<lambda>r. key r = Some k) rs))
         | Some b \<Rightarrow> Some (b @ filter (\<lambda>r. key r = Some k) rs)))"
proof (induction rs arbitrary: g)
  case Nil
  then show ?case by (auto split: option.splits)
next
  case (Cons r rs)
  show ?case
  proof (cases "key r")
    case None
    with Cons.IH[OF Cons.prems] show ?thesis by (auto split: option.splits)
  next
    case (Some k0)
    have s: "sorted_wrt (<) (map fst (insert_group k0 r g))"
      using Cons.prems by (rule insert_group_sorted)
    note ih = Cons.IH[OF s]
    show ?thesis
      using ih Some by (auto simp: insert_group_lookup[OF Cons.prems] split: option.splits)
  qed
qed

lemma group_rows_sorted: "sorted_wrt (<) (map fst (group_rows key rs))"
  using fold_groups[of "[]" key rs] by (simp add: group_rows_def)

lemma group_rows_lookup:
  "map_of (group_rows key rs) k =
     (if filter (\<lambda>r. key r = Some k) rs = [] then None else Some (filter (\<lambda>r. key r = Some k) rs))"
  using fold_groups[of "[]" key rs] by (simp add: group_rows_def)

lemma group_rows_distinct: "distinct (map fst (group_rows key rs))"
  using group_rows_sorted[of key rs] by (simp add: strict_sorted_iff)

lemma group_rows_member:
  "(k, b) \<in> set (group_rows key rs) \<longleftrightarrow> b = filter (\<lambda>r. key r = Some k) rs \<and> b \<noteq> []"
  using map_of_eq_Some_iff[OF group_rows_distinct, of key rs k b]
  by (auto simp: group_rows_lookup split: if_splits)

lemma group_rows_keys:
  "set (map fst (group_rows key rs)) = {k. \<exists>r \<in> set rs. key r = Some k}"
proof -
  have "k \<in> fst ` set (group_rows key rs) \<longleftrightarrow> (\<exists>r \<in> set rs. key r = Some k)" for k
  proof -
    have "k \<in> fst ` set (group_rows key rs) \<longleftrightarrow> map_of (group_rows key rs) k \<noteq> None"
      by (simp add: map_of_eq_None_iff)
    also have "\<dots> \<longleftrightarrow> filter (\<lambda>r. key r = Some k) rs \<noteq> []"
      by (simp add: group_rows_lookup)
    also have "\<dots> \<longleftrightarrow> (\<exists>r \<in> set rs. key r = Some k)"
      by (simp add: filter_empty_conv)
    finally show ?thesis .
  qed
  then show ?thesis by auto
qed

lemma group_rows_map:
  "group_rows key rs = map (\<lambda>k. (k, filter (\<lambda>r. key r = Some k) rs)) (map fst (group_rows key rs))"
proof -
  have "p = (fst p, filter (\<lambda>r. key r = Some (fst p)) rs)" if "p \<in> set (group_rows key rs)" for p
    using that group_rows_member[of "fst p" "snd p" key rs] by (metis prod.collapse)
  then have "map (\<lambda>p. p) (group_rows key rs) = map (\<lambda>p. (fst p, filter (\<lambda>r. key r = Some (fst p)) rs)) (group_rows key rs)"
    by (intro map_cong) auto
  then show ?thesis by (simp add: comp_def)
qed

section \<open>Properties of the monthly aggregation\<close>

lemma position_less: "x \<in> set xs \<Longrightarrow> position x xs < length xs"
  by (induction xs) auto

lemma position_append: "x \<in> set xs \<Longrightarrow> position x (xs @ ys) = position x xs"
  by (induction xs) auto

lemma position_fresh: "x \<notin> set xs \<Longrightarrow> position x (xs @ [x]) = length xs"
  by (induction xs) auto

lemma put_cell_length:
  "length cells = length names \<Longrightarrow> length (put_cell names n v cells) = length (put_name names n)"
  by (simp add: put_cell_def put_name_def)

lemma put_cell_same:
  "length cells = length names \<Longrightarrow> put_cell names n v cells ! position n (put_name names n) = v"
  by (auto simp: put_cell_def put_name_def position_less position_fresh nth_append)

lemma put_cell_other:
  "length cells = length names \<Longrightarrow> c \<in> set names \<Longrightarrow> c \<noteq> n \<Longrightarrow>
   put_cell names n v cells ! position c (put_name names n) = cells ! position c names"
proof -
  assume len: "length cells = length names" and c: "c \<in> set names" and ne: "c \<noteq> n"
  have neq: "position c names \<noteq> position n names" if "n \<in> set names"
    using c that ne by (induction names) (auto split: if_splits)
  show ?thesis
    using len c ne neq
    by (auto simp: put_cell_def put_name_def position_append position_less nth_append)
qed

lemma to_datetime_result:
  "to_datetime parse cs = Inr stamps \<Longrightarrow> stamps = map (date_of parse) cs"
  by (induction cs arbitrary: stamps)
     (auto simp: date_of_def split: date_cell.splits sum.splits)

lemma to_datetime_parseable:
  "parseable parse cs \<Longrightarrow> to_datetime parse cs = Inr (map (date_of parse) cs)"
  by (induction cs)
     (auto simp: date_of_def parseable_def split: date_cell.splits sum.splits)

lemma zip_map_same: "zip (map f xs) xs = map (\<lambda>x. (f x, x)) xs"
  by (induction xs) auto

lemma assigned_rows:
  "rows (set_column ''Month'' (map dt_month (map (date_of parse) (map fst (rows data))))
          (set_column ''Year'' (map dt_year (map (date_of parse) (map fst (rows data))))
             (set_date (map (date_of parse) (map fst (rows data))) data)))
   = map (assign parse (columns data)) (rows data)"
  by (simp add: set_column_def set_date_def assign_def stamp_cell_def zip_map_same
        zip_map_map zip_map2 zip_map1 split_def comp_def)

lemma process_monthly_data_assigned:
  assumes "to_datetime parse (map fst (rows data)) = Inr stamps"
  shows "process_monthly_data numeric_only epoch parse data =
           (case groupby_mean numeric_only epoch ''Year'' ''Month'' (assigned parse data) of
              Inl e \<Rightarrow> Inl e
            | Inr monthly_avg \<Rightarrow> Inr (assigned parse data, monthly_avg))"
proof -
  have s: "stamps = map (date_of parse) (map fst (rows data))"
    using assms by (rule to_datetime_result)
  have "set_column ''Month'' (map dt_month stamps)
          (set_column ''Year'' (map dt_year stamps) (set_date stamps data)) = assigned parse data"
    unfolding s assigned_def
    using assigned_rows[of parse data]
    by (simp add: set_column_def set_date_def)
  then show ?thesis
    using assms by (simp add: process_monthly_data_def Let_def cong: sum.case_cong)
qed

lemma assign_month:
  assumes "length (snd row) = length names"
  shows "snd (assign parse names row) ! position ''Month'' (put_name (put_name names ''Year'') ''Month'')
           = dt_month (date_of parse (fst row))"
proof -
  let ?t = "date_of parse (fst row)"
  let ?c2 = "put_cell names ''Year'' (dt_year ?t) (snd row)"
  let ?n2 = "put_name names ''Year''"
  have l2: "length ?c2 = length ?n2"
    using assms by (rule put_cell_length)
  have "put_cell ?n2 ''Month'' (dt_month ?t) ?c2 ! position ''Month'' (put_name ?n2 ''Month'') = dt_month ?t"
    using l2 by (rule put_cell_same)
  then show ?thesis by (simp add: assign_def)
qed

lemma assign_year:
  assumes "length (snd row) = length names"
  shows "snd (assign parse names row) ! position ''Year'' (put_name (put_name names ''Year'') ''Month'')
           = dt_year (date_of parse (fst row))"
proof -
  let ?t = "date_of parse (fst row)"
  let ?c2 = "put_cell names ''Year'' (dt_year ?t) (snd row)"
  let ?n2 = "put_name names ''Year''"
  have l2: "length ?c2 = length ?n2"
    using assms by (rule put_cell_length)
  have y2: "?c2 ! position ''Year'' ?n2 = dt_year ?t"
    using assms by (rule put_cell_same)
  have yin: "''Year'' \<in> set ?n2"
    by (simp add: put_name_def)
  have "put_cell ?n2 ''Month'' (dt_month ?t) ?c2 ! position ''Year'' (put_name ?n2 ''Month'') = dt_year ?t"
    using put_cell_other[OF l2 yin, of "''Month''" "dt_month ?t"] y2 by simp
  then show ?thesis by (simp add: assign_def)
qed

lemma assign_key:
  assumes "length (snd row) = length names"
  shows "key2 (position ''Year'' (put_name (put_name names ''Year'') ''Month''))
              (position ''Month'' (put_name (put_name names ''Year'') ''Month''))
              (snd (assign parse names row)) = year_month parse row"
proof -
  let ?t = "date_of parse (fst row)"
  have "key2 (position ''Year'' (put_name (put_name names ''Year'') ''Month''))
             (position ''Month'' (put_name (put_name names ''Year'') ''Month''))
             (snd (assign parse names row))
        = (case dt_year ?t of None \<Rightarrow> None
           | Some a \<Rightarrow> (case dt_month ?t of None \<Rightarrow> None | Some b \<Rightarrow> Some (a, b)))"
    by (simp only: key2_def assign_year[OF assms] assign_month[OF assms])
  also have "\<dots> = year_month parse row"
    by (cases ?t) (auto simp: year_month_def dt_year_def dt_month_def)
  finally show ?thesis .
qed

lemma assign_other:
  assumes "length (snd row) = length names" and "c \<in> set (value_columns names)"
  shows "snd (assign parse names row) ! position c (put_name (put_name names ''Year'') ''Month'')
           = snd row ! position c names"
proof -
  let ?t = "date_of parse (fst row)"
  let ?c2 = "put_cell names ''Year'' (dt_year ?t) (snd row)"
  let ?n2 = "put_name names ''Year''"
  from assms(2) have c: "c \<in> set names" "c \<noteq> ''Year''" "c \<noteq> ''Month''"
    by (auto simp: value_columns_def)
  have l2: "length ?c2 = length ?n2"
    using assms(1) by (rule put_cell_length)
  have cin: "c \<in> set ?n2"
    using c by (simp add: put_name_def)
  have "put_cell ?n2 ''Month'' (dt_month ?t) ?c2 ! position c (put_name ?n2 ''Month'') = ?c2 ! position c ?n2"
    using l2 cin c(3) by (rule put_cell_other)
  also have "\<dots> = snd row ! position c names"
    using assms(1) c(1) c(2) by (rule put_cell_other)
  finally show ?thesis by (simp add: assign_def)
qed

lemma value_columns_assigned:
  "filter (\<lambda>c. c \<noteq> ''Year'' \<and> c \<noteq> ''Month'') (put_name (put_name names ''Year'') ''Month'') = value_columns names"
  by (auto simp: put_name_def value_columns_def)

lemma keys_in_assigned:
  "''Year'' \<in> set (put_name (put_name names ''Year'') ''Month'')"
  "''Month'' \<in> set (put_name (put_name names ''Year'') ''Month'')"
  by (auto simp: put_name_def)

lemma timestamp_assign:
  "timestamp epoch (fst (assign parse names row)) = map_option epoch (date_of parse (fst row))"
  by (cases "date_of parse (fst row)") (simp_all add: assign_def stamp_cell_def timestamp_def)

lemma no_text_assigned: "\<not> has_text (map (fst \<circ> assign parse names) rs)"
  by (induction rs) (auto simp: has_text_def assign_def stamp_cell_def split: option.splits)

lemma groupby_mean_assigned:
  assumes rect: "rectangular (columns data) (map snd (rows data))"
  shows "groupby_mean numeric_only epoch ''Year'' ''Month'' (assigned parse data) =
     Inr \<lparr>columns = ''Year'' # ''Month'' # (if numeric_only then [] else [''Date'']) @ value_columns (columns data),
          rows = map (\<lambda>(y, m). Some y # Some m #
                        (if numeric_only then [] else [month_stamp_mean epoch parse data (y, m)]) @
                        map (month_mean parse data (y, m)) (value_columns (columns data)))
                     (map fst (group_rows (year_month parse) (rows data)))\<rparr>"
proof -
  let ?n3 = "put_name (put_name (columns data) ''Year'') ''Month''"
  let ?key = "\<lambda>row. key2 (position ''Year'' ?n3) (position ''Month'' ?n3) (snd row)"
  let ?rs = "map (assign parse (columns data)) (rows data)"
  let ?vs = "value_columns (columns data)"
  have len: "length (snd row) = length (columns data)" if "row \<in> set (rows data)" for row
    using rect that by (auto simp: rectangular_def list_all_iff)
  have bucket: "filter (\<lambda>r. ?key r = Some k) ?rs =
      map (assign parse (columns data)) (filter (\<lambda>row. year_month parse row = Some k) (rows data))" for k
  proof -
    have "filter (\<lambda>r. ?key r = Some k) ?rs =
        map (assign parse (columns data))
            (filter (\<lambda>row. ?key (assign parse (columns data) row) = Some k) (rows data))"
      by (simp add: filter_map comp_def)
    also have "filter (\<lambda>row. ?key (assign parse (columns data) row) = Some k) (rows data)
        = filter (\<lambda>row. year_month parse row = Some k) (rows data)"
      by (rule filter_cong) (auto simp: assign_key[OF len])
    finally show ?thesis .
  qed
  have keys: "map fst (group_rows ?key ?rs) = map fst (group_rows (year_month parse) (rows data))"
  proof -
    have "set (map fst (group_rows ?key ?rs)) = set (map fst (group_rows (year_month parse) (rows data)))"
      unfolding group_rows_keys by (auto simp: assign_key[OF len])
    then show ?thesis
      using group_rows_sorted[of ?key ?rs] group_rows_sorted[of "year_month parse" "rows data"]
      by (metis strict_sorted_equal)
  qed
  have col: "mean (map (\<lambda>row. snd row ! position c ?n3) (filter (\<lambda>r. ?key r = Some k) ?rs)) = month_mean parse data k c"
    if "c \<in> set ?vs" for c k
  proof -
    have "map (\<lambda>row. snd row ! position c ?n3) (filter (\<lambda>r. ?key r = Some k) ?rs)
        = map (\<lambda>row. snd (assign parse (columns data) row) ! position c ?n3)
              (filter (\<lambda>row. year_month parse row = Some k) (rows data))"
      by (subst bucket) (simp add: comp_def)
    also have "\<dots> = map (\<lambda>row. snd row ! position c (columns data))
              (filter (\<lambda>row. year_month parse row = Some k) (rows data))"
      by (rule map_cong) (auto simp: assign_other[OF len that])
    finally show ?thesis by (simp add: month_mean_def)
  qed
  have dat: "mean (map (\<lambda>row. timestamp epoch (fst row)) (filter (\<lambda>r. ?key r = Some k) ?rs))
             = month_stamp_mean epoch parse data k" for k
    by (subst bucket) (simp add: comp_def timestamp_assign month_stamp_mean_def)
  have inner: "map (\<lambda>c. mean (map (\<lambda>row. snd row ! position c ?n3) (filter (\<lambda>r. ?key r = Some k) ?rs))) ?vs
               = map (month_mean parse data k) ?vs" for k
    by (rule map_cong[OF refl]) (rule col)
  have "map (\<lambda>((a, b), bucket). Some a # Some b #
              (if numeric_only then [] else [mean (map (\<lambda>row. timestamp epoch (fst row)) bucket)]) @
              map (\<lambda>c. mean (map (\<lambda>row. snd row ! position c ?n3) bucket)) ?vs)
            (group_rows ?key ?rs)
      = map (\<lambda>(y, m). Some y # Some m #
              (if numeric_only then [] else [month_stamp_mean epoch parse data (y, m)]) @
              map (month_mean parse data (y, m)) ?vs)
            (map fst (group_rows (year_month parse) (rows data)))"
  proof -
    have "map (\<lambda>((a, b), bucket). Some a # Some b #
              (if numeric_only then [] else [mean (map (\<lambda>row. timestamp epoch (fst row)) bucket)]) @
              map (\<lambda>c. mean (map (\<lambda>row. snd row ! position c ?n3) bucket)) ?vs)
            (group_rows ?key ?rs)
        = map (\<lambda>((a, b), bucket). Some a # Some b #
              (if numeric_only then [] else [mean (map (\<lambda>row. timestamp epoch (fst row)) bucket)]) @
              map (\<lambda>c. mean (map (\<lambda>row. snd row ! position c ?n3) bucket)) ?vs)
            (map (\<lambda>k. (k, filter (\<lambda>r. ?key r = Some k) ?rs)) (map fst (group_rows ?key ?rs)))"
      using group_rows_map[of ?key ?rs] by simp
    also have "\<dots> = map (\<lambda>(y, m). Some y # Some m #
              (if numeric_only then []
               else [mean (map (\<lambda>row. timestamp epoch (fst row)) (filter (\<lambda>r. ?key r = Some (y, m)) ?rs))]) @
              map (\<lambda>c. mean (map (\<lambda>row. snd row ! position c ?n3) (filter (\<lambda>r. ?key r = Some (y, m)) ?rs))) ?vs)
            (map fst (group_rows ?key ?rs))"
      by (simp add: comp_def split_def)
    also have "\<dots> = map (\<lambda>(y, m). Some y # Some m #
              (if numeric_only then [] else [month_stamp_mean epoch parse data (y, m)]) @
              map (month_mean parse data (y, m)) ?vs)
            (map fst (group_rows ?key ?rs))"
      by (simp only: inner dat)
    finally show ?thesis by (simp only: keys)
  qed
  then show ?thesis
    by (simp add: groupby_mean_def assigned_def keys_in_assigned value_columns_assigned no_text_assigned Let_def)
qed

lemma present_observed: "present cs = observed cs"
  by (induction cs rule: present.induct) (simp_all add: observed_def)

lemma mean_observed:
  "mean cs = (let xs = observed cs in if xs = [] then None else Some (sum_list xs / real (length xs)))"
  by (simp add: mean_def present_observed Let_def)

lemma month_mean_explicit:
  "month_mean parse data k =
     (\<lambda>c. let xs = observed (map (\<lambda>row. snd row ! position c (columns data)) (rows_in_month parse data k))
          in if xs = [] then None else Some (sum_list xs / real (length xs)))"
  by (rule ext) (simp only: month_mean_def rows_in_month_def mean_observed)

lemma month_stamp_mean_explicit:
  "month_stamp_mean epoch parse data k =
     (let xs = observed (map (\<lambda>row. map_option epoch (date_of parse (fst row))) (rows_in_month parse data k))
      in if xs = [] then None else Some (sum_list xs / real (length xs)))"
  by (simp only: month_stamp_mean_def rows_in_month_def mean_observed)

lemma mean_single: "mean [c] = c"
  by (cases c) (simp_all add: mean_def)

lemma process_monthly_data_characterised:
  assumes "rectangular (columns data) (map snd (rows data))"
    and "parseable parse (map fst (rows data))"
  shows "\<exists>data' monthly keys.
      process_monthly_data numeric_only epoch parse data = Inr (data', monthly)
    \<and> columns monthly = ''Year'' # ''Month'' # (if numeric_only then [] else [''Date'']) @ value_columns (columns data)
    \<and> sorted_wrt (<) keys
    \<and> set keys = {k. \<exists>row \<in> set (rows data). year_month parse row = Some k}
    \<and> rows monthly = map (\<lambda>(y, m). Some y # Some m #
                              (if numeric_only then [] else [month_stamp_mean epoch parse data (y, m)]) @
                              map (month_mean parse data (y, m)) (value_columns (columns data))) keys"
proof -
  let ?keys = "map fst (group_rows (year_month parse) (rows data))"
  let ?monthly = "\<lparr>columns = ''Year'' # ''Month'' # (if numeric_only then [] else [''Date'']) @ value_columns (columns data),
          rows = map (\<lambda>(y, m). Some y # Some m #
                        (if numeric_only then [] else [month_stamp_mean epoch parse data (y, m)]) @
                        map (month_mean parse data (y, m)) (value_columns (columns data))) ?keys\<rparr>"
  have "process_monthly_data numeric_only epoch parse data = Inr (assigned parse data, ?monthly)"
    using process_monthly_data_assigned[OF to_datetime_parseable[OF assms(2)], of numeric_only epoch]
          groupby_mean_assigned[OF assms(1), of numeric_only epoch parse]
    by simp
  moreover have "sorted_wrt (<) ?keys"
    by (rule group_rows_sorted)
  moreover have "set ?keys = {k. \<exists>row \<in> set (rows data). year_month parse row = Some k}"
    by (rule group_rows_keys)
  ultimately show ?thesis
    by (intro exI[of _ "assigned parse data"] exI[of _ ?monthly] exI[of _ ?keys]) simp
qed

text \<open>
  Claim C4, as the source has it. For a rectangular climate frame whose date texts are all
  readable, \<^verbatim>\<open>process_monthly_data\<close> returns a table with one row per (year, month) pair
  that some row's date falls in, the pairs strictly ascending, the two keys restored as its
  first columns. The cell of a value column in the row of a pair is the sum of the values
  that the column has in the rows of that pair, divided by their number (missing when it
  has none). Whether the \<^verbatim>\<open>Date\<close> column is dropped depends on the default of the
  installed pandas: it is absent when the default averages numeric columns only, and
  otherwise it is kept and holds the mean of the dates of the pair on the time axis.
\<close>

theorem monthly_aggregation_groups_and_averages:
  assumes "rectangular (columns data) (map snd (rows data))"
    and "parseable parse (map fst (rows data))"
  shows "\<exists>data' monthly keys.
      process_monthly_data numeric_only epoch parse data = Inr (data', monthly)
    \<and> columns monthly = ''Year'' # ''Month'' # (if numeric_only then [] else [''Date'']) @ value_columns (columns data)
    \<and> sorted_wrt (<) keys
    \<and> set keys = {k. \<exists>row \<in> set (rows data). year_month parse row = Some k}
    \<and> rows monthly = map (\<lambda>(y, m). Some y # Some m #
         (if numeric_only then []
          else [let xs = observed (map (\<lambda>row. map_option epoch (date_of parse (fst row)))
                                       (rows_in_month parse data (y, m)))
                in if xs = [] then None else Some (sum_list xs / real (length xs))]) @
         map (\<lambda>c. let xs = observed (map (\<lambda>row. snd row ! position c (columns data))
                                        (rows_in_month parse data (y, m)))
                  in if xs = [] then None else Some (sum_list xs / real (length xs)))
             (value_columns (columns data))) keys"
  using process_monthly_data_characterised[OF assms, of numeric_only epoch]
  unfolding month_mean_explicit month_stamp_mean_explicit .

theorem monthly_aggregation_groups_and_averages_witness:
  "rectangular (columns july_august) (map snd (rows july_august))
   \<and> parseable yyyymmdd (map fst (rows july_august))
   \<and> (\<exists>data'. process_monthly_data True days_from_civil yyyymmdd july_august =
        Inr (data', \<lparr>columns = [''Year'', ''Month'', ''T2M'', ''PRECTOTCORR''],
                     rows = [[Some 2019, Some 7, Some 31, Some 6], [Some 2019, Some 8, Some 28, Some 0]]\<rparr>))"
proof -
  have r: "rectangular (columns july_august) (map snd (rows july_august))"
    by (simp add: rectangular_def july_august_def)
  have p: "parseable yyyymmdd (map fst (rows july_august))"
    by (simp add: parseable_def july_august_def yyyymmdd_def digit_value_def)
  have ym: "map (year_month yyyymmdd) (rows july_august) = [Some (2019, 7), Some (2019, 8), Some (2019, 7)]"
    by (simp add: july_august_def year_month_def date_of_def yyyymmdd_def digit_value_def)
  from monthly_aggregation_groups_and_averages[OF r p, where numeric_only = True and epoch = days_from_civil]
  obtain data' monthly keys where
    a: "process_monthly_data True days_from_civil yyyymmdd july_august = Inr (data', monthly)"
    and b: "columns monthly = ''Year'' # ''Month'' # value_columns (columns july_august)"
    and c: "sorted_wrt (<) keys"
    and d: "set keys = {k. \<exists>row \<in> set (rows july_august). year_month yyyymmdd row = Some k}"
    and e: "rows monthly = map (\<lambda>(y, m). Some y # Some m #
         map (\<lambda>c. let xs = observed (map (\<lambda>row. snd row ! position c (columns july_august))
                                        (rows_in_month yyyymmdd july_august (y, m)))
                  in if xs = [] then None else Some (sum_list xs / real (length xs)))
             (value_columns (columns july_august))) keys"
    by auto
  have "set keys = set [(2019, 7), (2019, 8)]"
    unfolding d using ym by (auto simp: july_august_def)
  moreover have "sorted_wrt (<) [(2019 :: real, 7 :: real), (2019, 8)]"
    by simp
  ultimately have k: "keys = [(2019, 7), (2019, 8)]"
    using c by (metis strict_sorted_equal)
  have "monthly = \<lparr>columns = [''Year'', ''Month'', ''T2M'', ''PRECTOTCORR''],
                     rows = [[Some 2019, Some 7, Some 31, Some 6], [Some 2019, Some 8, Some 28, Some 0]]\<rparr>"
    using b e ym unfolding k
    by (cases monthly) (simp add: value_columns_def rows_in_month_def observed_def july_august_def Let_def)
  with a r p show ?thesis by blast
qed

text \<open>
  Claim C4, as stated (non-numeric columns are dropped), fails under the default of
  pandas 2: for the three days of \<open>july_august\<close> the result keeps a \<^verbatim>\<open>Date\<close> column,
  which holds the mean of 15 and 16 July 2019 and 1 August 2019 on the time axis.
\<close>

theorem date_column_kept_by_default_mean:
  "process_monthly_data False days_from_civil yyyymmdd july_august =
     Inr (\<lparr>columns = [''T2M'', ''PRECTOTCORR'', ''Year'', ''Month''],
           rows = [(Stamp (2019, 7, 15), [Some 30, Some 5, Some 2019, Some 7]),
                   (Stamp (2019, 8, 1), [Some 28, Some 0, Some 2019, Some 8]),
                   (Stamp (2019, 7, 16), [Some 32, Some 7, Some 2019, Some 7])]\<rparr>,
          \<lparr>columns = [''Year'', ''Month'', ''Date'', ''T2M'', ''PRECTOTCORR''],
           rows = [[Some 2019, Some 7, Some (36185 / 2), Some 31, Some 6],
                   [Some 2019, Some 8, Some 18109, Some 28, Some 0]]\<rparr>)"
  by (simp add: process_monthly_data_def july_august_def yyyymmdd_def digit_value_def
        set_date_def set_column_def put_name_def put_cell_def dt_year_def dt_month_def
        groupby_mean_def group_rows_def key2_def mean_def has_text_def timestamp_def
        days_from_civil_def Let_def)

lemma at_most_one_row:
  "distinct (filter (\<lambda>k. k \<noteq> None) (map f xs)) \<Longrightarrow> length (filter (\<lambda>x. f x = Some k) xs) \<le> 1"
proof (induction xs)
  case Nil
  then show ?case by simp
next
  case (Cons x xs)
  show ?case
  proof (cases "f x = Some k")
    case True
    with Cons.prems have "Some k \<notin> set (map f xs)" by auto
    then have "\<forall>x \<in> set xs. f x \<noteq> Some k"
      by force
    then have "filter (\<lambda>x. f x = Some k) xs = []"
      by (simp add: filter_empty_conv)
    with True show ?thesis by simp
  next
    case False
    with Cons show ?thesis by (auto split: if_splits)
  qed
qed

lemma single_bucket:
  assumes "distinct (filter (\<lambda>k. k \<noteq> None) (map f xs))" and "x \<in> set xs" and "f x = Some k"
  shows "filter (\<lambda>x. f x = Some k) xs = [x]"
proof -
  have m: "x \<in> set (filter (\<lambda>x. f x = Some k) xs)"
    using assms by simp
  have "length (filter (\<lambda>x. f x = Some k) xs) \<le> 1"
    using assms(1) by (rule at_most_one_row)
  with m show ?thesis
    by (cases "filter (\<lambda>x. f x = Some k) xs") auto
qed

text \<open>
  Claim C8. When no two rows of the frame fall in the same (year, month), every row of the
  result holds, besides its keys, the value cells of the one input row of that month, and
  every dated input row appears in the result in this form. Where the installed pandas
  keeps the \<^verbatim>\<open>Date\<close> column, its cell is likewise the date of that one row.
\<close>

theorem single_row_months_keep_their_values:
  assumes "rectangular (columns data) (map snd (rows data))"
    and "parseable parse (map fst (rows data))"
    and "distinct (filter (\<lambda>k. k \<noteq> None) (map (year_month parse) (rows data)))"
  shows "\<exists>data' monthly.
      process_monthly_data numeric_only epoch parse data = Inr (data', monthly)
    \<and> (\<forall>out \<in> set (rows monthly). \<exists>row \<in> set (rows data). \<exists>y m.
          year_month parse row = Some (y, m)
        \<and> out = Some y # Some m #
                (if numeric_only then [] else [map_option epoch (date_of parse (fst row))]) @
                map (\<lambda>c. snd row ! position c (columns data)) (value_columns (columns data)))
    \<and> (\<forall>row \<in> set (rows data). \<forall>y m. year_month parse row = Some (y, m) \<longrightarrow>
          Some y # Some m #
          (if numeric_only then [] else [map_option epoch (date_of parse (fst row))]) @
          map (\<lambda>c. snd row ! position c (columns data)) (value_columns (columns data))
            \<in> set (rows monthly))"
proof -
  from process_monthly_data_characterised[OF assms(1,2), of numeric_only epoch]
  obtain data' monthly keys where
    a: "process_monthly_data numeric_only epoch parse data = Inr (data', monthly)"
    and d: "set keys = {k. \<exists>row \<in> set (rows data). year_month parse row = Some k}"
    and e: "rows monthly = map (\<lambda>(y, m). Some y # Some m #
                              (if numeric_only then [] else [month_stamp_mean epoch parse data (y, m)]) @
                              map (month_mean parse data (y, m)) (value_columns (columns data))) keys"
    by blast
  have own: "(if numeric_only then [] else [month_stamp_mean epoch parse data k]) @
             map (month_mean parse data k) (value_columns (columns data))
           = (if numeric_only then [] else [map_option epoch (date_of parse (fst row))]) @
             map (\<lambda>c. snd row ! position c (columns data)) (value_columns (columns data))"
    if "row \<in> set (rows data)" and "year_month parse row = Some k" for row k
    using single_bucket[OF assms(3) that] by (simp add: month_mean_def month_stamp_mean_def mean_single)
  have 1: "\<exists>row \<in> set (rows data). \<exists>y m. year_month parse row = Some (y, m)
        \<and> out = Some y # Some m #
                (if numeric_only then [] else [map_option epoch (date_of parse (fst row))]) @
                map (\<lambda>c. snd row ! position c (columns data)) (value_columns (columns data))"
    if "out \<in> set (rows monthly)" for out
  proof -
    from that e obtain y m where k: "(y, m) \<in> set keys"
      and o: "out = Some y # Some m #
                (if numeric_only then [] else [month_stamp_mean epoch parse data (y, m)]) @
                map (month_mean parse data (y, m)) (value_columns (columns data))"
      by auto
    from k d obtain row where r: "row \<in> set (rows data)" "year_month parse row = Some (y, m)"
      by auto
    from o have "out = Some y # Some m #
                (if numeric_only then [] else [map_option epoch (date_of parse (fst row))]) @
                map (\<lambda>c. snd row ! position c (columns data)) (value_columns (columns data))"
      unfolding own[OF r] .
    with r show ?thesis by blast
  qed
  have 2: "Some y # Some m #
          (if numeric_only then [] else [map_option epoch (date_of parse (fst row))]) @
          map (\<lambda>c. snd row ! position c (columns data)) (value_columns (columns data))
            \<in> set (rows monthly)"
    if "row \<in> set (rows data)" and "year_month parse row = Some (y, m)" for row y m
  proof -
    from that d have "(y, m) \<in> set keys" by auto
    then have "Some y # Some m #
                (if numeric_only then [] else [month_stamp_mean epoch parse data (y, m)]) @
                map (month_mean parse data (y, m)) (value_columns (columns data)) \<in> set (rows monthly)"
      unfolding e by force
    then show ?thesis unfolding own[OF that] .
  qed
  from a 1 2 show ?thesis by blast
qed

theorem single_row_months_keep_their_values_witness:
  "rectangular (columns one_day_per_month) (map snd (rows one_day_per_month))
   \<and> parseable yyyymmdd (map fst (rows one_day_per_month))
   \<and> distinct (filter (\<lambda>k. k \<noteq> None) (map (year_month yyyymmdd) (rows one_day_per_month)))
   \<and> (\<exists>data' monthly. process_monthly_data True days_from_civil yyyymmdd one_day_per_month = Inr (data', monthly)
        \<and> [Some 2019, Some 7, Some 30, Some 5] \<in> set (rows monthly)
        \<and> [Some 2019, Some 8, Some 28, Some 0] \<in> set (rows monthly))"
proof -
  have r: "rectangular (columns one_day_per_month) (map snd (rows one_day_per_month))"
    by (simp add: rectangular_def one_day_per_month_def)
  have p: "parseable yyyymmdd (map fst (rows one_day_per_month))"
    by (simp add: parseable_def one_day_per_month_def yyyymmdd_def digit_value_def)
  have ym: "map (year_month yyyymmdd) (rows one_day_per_month) = [Some (2019, 8), Some (2019, 7)]"
    by (simp add: one_day_per_month_def year_month_def date_of_def yyyymmdd_def digit_value_def)
  have d: "distinct (filter (\<lambda>k. k \<noteq> None) (map (year_month yyyymmdd) (rows one_day_per_month)))"
    unfolding ym by simp
  from single_row_months_keep_their_values[OF r p d, where numeric_only = True and epoch = days_from_civil]
  obtain data' monthly where
    a: "process_monthly_data True days_from_civil yyyymmdd one_day_per_month = Inr (data', monthly)"
    and b: "\<forall>row \<in> set (rows one_day_per_month). \<forall>y m. year_month yyyymmdd row = Some (y, m) \<longrightarrow>
          Some y # Some m # map (\<lambda>c. snd row ! position c (columns one_day_per_month)) (value_columns (columns one_day_per_month))
            \<in> set (rows monthly)"
    by auto
  have "year_month yyyymmdd (Text ''20190715'', [Some 30, Some 5]) = Some (2019, 7)"
       "year_month yyyymmdd (Text ''20190801'', [Some 28, Some 0]) = Some (2019, 8)"
    by (simp_all add: year_month_def date_of_def yyyymmdd_def digit_value_def)
  with b have "[Some 2019, Some 7, Some 30, Some 5] \<in> set (rows monthly)"
      "[Some 2019, Some 8, Some 28, Some 0] \<in> set (rows monthly)"
    by (force simp: one_day_per_month_def value_columns_def)+
  with a r p d show ?thesis by blast
qed

lemma columns_grow:
  "''Year'' \<notin> set names \<or> ''Month'' \<notin> set names \<Longrightarrow> put_name (put_name names ''Year'') ''Month'' \<noteq> names"
  by (auto simp: put_name_def)

text \<open>
  Claim C9. After \<^verbatim>\<open>process_monthly_data(data)\<close> has returned, the frame that was passed has
  columns \<^verbatim>\<open>Year\<close> and \<^verbatim>\<open>Month\<close> holding the year and month of each row's date, and
  its \<^verbatim>\<open>Date\<close> column holds the parsed timestamps; a frame that lacked one of the two
  columns, as the caller's \<^verbatim>\<open>combined_data\<close> does, is therefore changed.
\<close>

theorem process_monthly_data_changes_its_argument:
  assumes "rectangular (columns data) (map snd (rows data))"
    and "process_monthly_data numeric_only epoch parse data = Inr (data', monthly)"
  shows "''Year'' \<in> set (columns data') \<and> ''Month'' \<in> set (columns data')
       \<and> map fst (rows data') = map (\<lambda>row. stamp_cell (date_of parse (fst row))) (rows data)
       \<and> map (\<lambda>row. snd row ! position ''Year'' (columns data')) (rows data')
           = map (\<lambda>row. dt_year (date_of parse (fst row))) (rows data)
       \<and> map (\<lambda>row. snd row ! position ''Month'' (columns data')) (rows data')
           = map (\<lambda>row. dt_month (date_of parse (fst row))) (rows data)
       \<and> (''Year'' \<notin> set (columns data) \<or> ''Month'' \<notin> set (columns data) \<longrightarrow> data' \<noteq> data)"
proof -
  obtain stamps where s: "to_datetime parse (map fst (rows data)) = Inr stamps"
    using assms(2) by (auto simp: process_monthly_data_def split: sum.splits)
  have d: "data' = assigned parse data"
    using assms(2) process_monthly_data_assigned[OF s, of numeric_only epoch] by (auto split: sum.splits)
  have len: "length (snd row) = length (columns data)" if "row \<in> set (rows data)" for row
    using assms(1) that by (auto simp: rectangular_def list_all_iff)
  have 1: "''Year'' \<in> set (columns data') \<and> ''Month'' \<in> set (columns data')"
    by (simp add: d assigned_def keys_in_assigned)
  have 2: "map fst (rows data') = map (\<lambda>row. stamp_cell (date_of parse (fst row))) (rows data)"
    by (simp add: d assigned_def assign_def)
  have 3: "map (\<lambda>row. snd row ! position ''Year'' (columns data')) (rows data')
           = map (\<lambda>row. dt_year (date_of parse (fst row))) (rows data)"
    by (simp add: d assigned_def assign_year[OF len])
  have 4: "map (\<lambda>row. snd row ! position ''Month'' (columns data')) (rows data')
           = map (\<lambda>row. dt_month (date_of parse (fst row))) (rows data)"
    by (simp add: d assigned_def assign_month[OF len])
  have 5: "data' \<noteq> data" if "''Year'' \<notin> set (columns data) \<or> ''Month'' \<notin> set (columns data)"
  proof
    assume "data' = data"
    then have "columns data = put_name (put_name (columns data) ''Year'') ''Month''"
      using d by (simp add: assigned_def) (metis df.select_convs(1))
    with columns_grow[OF that] show False by simp
  qed
  from 1 2 3 4 5 show ?thesis by blast
qed

theorem process_monthly_data_changes_its_argument_witness:
  "rectangular (columns one_day_per_month) (map snd (rows one_day_per_month))
   \<and> process_monthly_data True days_from_civil yyyymmdd one_day_per_month =
        Inr (\<lparr>columns = [''T2M'', ''PRECTOTCORR'', ''Year'', ''Month''],
              rows = [(Stamp (2019, 8, 1), [Some 28, Some 0, Some 2019, Some 8]),
                      (Stamp (2019, 7, 15), [Some 30, Some 5, Some 2019, Some 7])]\<rparr>,
             \<lparr>columns = [''Year'', ''Month'', ''T2M'', ''PRECTOTCORR''],
              rows = [[Some 2019, Some 7, Some 30, Some 5], [Some 2019, Some 8, Some 28, Some 0]]\<rparr>)
   \<and> \<lparr>columns = [''T2M'', ''PRECTOTCORR'', ''Year'', ''Month''],
              rows = [(Stamp (2019, 8, 1), [Some 28, Some 0, Some 2019, Some 8]),
                      (Stamp (2019, 7, 15), [Some 30, Some 5, Some 2019, Some 7])]\<rparr> \<noteq> one_day_per_month"
proof -
  let ?data' = "\<lparr>columns = [''T2M'', ''PRECTOTCORR'', ''Year'', ''Month''],
              rows = [(Stamp (2019, 8, 1), [Some 28, Some 0, Some (2019 :: real), Some 8]),
                      (Stamp (2019, 7, 15), [Some 30, Some 5, Some 2019, Some 7])]\<rparr>"
  let ?monthly = "\<lparr>columns = [''Year'', ''Month'', ''T2M'', ''PRECTOTCORR''],
              rows = [[Some (2019 :: real), Some 7, Some 30, Some 5], [Some 2019, Some 8, Some 28, Some 0]]\<rparr>"
  have r: "rectangular (columns one_day_per_month) (map snd (rows one_day_per_month))"
    by (simp add: rectangular_def one_day_per_month_def)
  have e: "process_monthly_data True days_from_civil yyyymmdd one_day_per_month = Inr (?data', ?monthly)"
    by (simp add: process_monthly_data_def one_day_per_month_def yyyymmdd_def digit_value_def
          set_date_def set_column_def put_name_def put_cell_def dt_year_def dt_month_def
          groupby_mean_def group_rows_def key2_def mean_def has_text_def Let_def)
  from process_monthly_data_changes_its_argument[OF r e]
  have "?data' \<noteq> one_day_per_month"
    by (simp add: one_day_per_month_def)
  with r e show ?thesis by simp
qed

section \<open>Properties of the join\<close>

lemma dengue_df_ok: "\<not> isl dengue_df"
  by (simp add: dengue_df_def dengue_melted_rows)

lemma dengue_df_value: "projr dengue_df = map_month month_mapping (projr dengue_melted)"
  by (simp add: dengue_df_def dengue_melted_rows)

lemma dengue_df_columns: "columns (projr dengue_df) = [''Year'', ''Month'', ''Dengue Cases'']"
  by (simp add: dengue_df_value map_month_def dengue_melted_rows)

lemma dengue_df_rows:
  "rows (projr dengue_df) =
     map (\<lambda>(y, label, v). [Some (of_int y), map_option of_int (map_of month_mapping label), Some (of_int v)])
         (rows (projr dengue_melted))"
  by (simp add: dengue_df_value map_month_def)

lemma dengue_df_keys_distinct:
  "distinct (map (join_key (columns (projr dengue_df))) (rows (projr dengue_df)))"
  unfolding dengue_df_columns dengue_df_rows
  by (simp add: dengue_melted_rows dengue_data_def month_mapping_def join_key_def)

lemma unique_match:
  "distinct (map f xs) \<Longrightarrow>
   filter (\<lambda>x. f x = k) xs = (case find (\<lambda>x. f x = k) xs of None \<Rightarrow> [] | Some x \<Rightarrow> [x])"
proof (induction xs)
  case Nil
  then show ?case by simp
next
  case (Cons x xs)
  show ?case
  proof (cases "f x = k")
    case True
    have "k \<notin> f ` set xs" using Cons.prems True by auto
    then have "\<forall>y \<in> set xs. f y \<noteq> k" by blast
    then have "filter (\<lambda>x. f x = k) xs = []"
      by (simp add: filter_empty_conv)
    with True show ?thesis by simp
  next
    case False
    with Cons show ?thesis by simp
  qed
qed

lemma find_member: "find P xs = Some x \<Longrightarrow> x \<in> set xs \<and> P x"
  by (induction xs) (auto split: if_splits)

lemma find_unique:
  "distinct (map f xs) \<Longrightarrow> x \<in> set xs \<Longrightarrow> find (\<lambda>y. f y = f x) xs = Some x"
  by (induction xs) force+

lemma merge_left_unique:
  assumes "''Year'' \<in> set (columns left)" "''Month'' \<in> set (columns left)"
    and "''Year'' \<in> set (columns right)" "''Month'' \<in> set (columns right)"
    and "distinct (map (join_key (columns right)) (rows right))"
  shows "\<exists>final. merge_left left right = Inr final
     \<and> rows final = map (\<lambda>a. a @ (case find (\<lambda>b. join_key (columns right) b = join_key (columns left) a) (rows right) of
                                       None \<Rightarrow> replicate (length (value_columns (columns right))) None
                                     | Some b \<Rightarrow> other_cells (columns right) b)) (rows left)"
proof -
  have "(case filter (\<lambda>b. join_key (columns right) b = k) (rows right) of
           [] \<Rightarrow> [a @ replicate n None]
         | ms \<Rightarrow> map (\<lambda>b. a @ other_cells (columns right) b) ms)
        = [a @ (case find (\<lambda>b. join_key (columns right) b = k) (rows right) of
                  None \<Rightarrow> replicate n None
                | Some b \<Rightarrow> other_cells (columns right) b)]" for a :: "cell list" and k n
    unfolding unique_match[OF assms(5)]
    by (cases "find (\<lambda>b. join_key (columns right) b = k) (rows right)") simp_all
  then show ?thesis
    using assms(1-4)
    by (simp add: merge_left_def Let_def value_columns_def cong: option.case_cong)
qed

text \<open>
  Claim C1. Merging any monthly aggregate (a table with \<^verbatim>\<open>Year\<close> and \<^verbatim>\<open>Month\<close> columns)
  with the reshaped case table succeeds and is a left outer join: the result has the rows
  of the aggregate, each once and in order, each extended by one cell. That cell is the
  count of the case row with the same (year, month) key when there is one, and missing
  when no case row has that key.
\<close>

theorem left_join_keeps_every_aggregate_row:
  assumes "''Year'' \<in> set (columns monthly)" and "''Month'' \<in> set (columns monthly)"
  shows "\<not> isl dengue_df
     \<and> (\<exists>final. merge_left monthly (projr dengue_df) = Inr final
          \<and> length (rows final) = length (rows monthly)
          \<and> rows final = map (\<lambda>a. a @ [case_count (projr dengue_df) (join_key (columns monthly) a)]) (rows monthly))
     \<and> (\<forall>b \<in> set (rows (projr dengue_df)).
          case_count (projr dengue_df) (join_key (columns (projr dengue_df)) b) = b ! 2)
     \<and> (\<forall>k. (\<forall>b \<in> set (rows (projr dengue_df)). join_key (columns (projr dengue_df)) b \<noteq> k)
              \<longrightarrow> case_count (projr dengue_df) k = None)"
proof -
  let ?D = "projr dengue_df"
  have len3: "length b = 3" if "b \<in> set (rows ?D)" for b
    using that by (auto simp: dengue_df_rows)
  have oc: "other_cells (columns ?D) b = [b ! 2]" if "b \<in> set (rows ?D)" for b
  proof -
    from len3[OF that] obtain x y z where "b = [x, y, z]"
      by (cases b; cases "tl b"; cases "tl (tl b)") auto
    then show ?thesis by (simp add: other_cells_def dengue_df_columns)
  qed
  have pos: "position ''Dengue Cases'' (columns ?D) = 2"
    by (simp add: dengue_df_columns)
  have att: "(case find (\<lambda>b. join_key (columns ?D) b = k) (rows ?D) of
                None \<Rightarrow> replicate (length (value_columns (columns ?D))) None
              | Some b \<Rightarrow> other_cells (columns ?D) b) = [case_count ?D k]" for k
  proof (cases "find (\<lambda>b. join_key (columns ?D) b = k) (rows ?D)")
    case None
    then show ?thesis by (simp add: case_count_def dengue_df_columns value_columns_def)
  next
    case (Some b)
    then have "b \<in> set (rows ?D)" by (auto dest: find_member)
    with Some show ?thesis by (simp add: case_count_def oc pos)
  qed
  from merge_left_unique[OF assms _ _ dengue_df_keys_distinct]
  obtain final where f: "merge_left monthly ?D = Inr final"
    and r: "rows final = map (\<lambda>a. a @ (case find (\<lambda>b. join_key (columns ?D) b = join_key (columns monthly) a) (rows ?D) of
                                       None \<Rightarrow> replicate (length (value_columns (columns ?D))) None
                                     | Some b \<Rightarrow> other_cells (columns ?D) b)) (rows monthly)"
    by (auto simp: dengue_df_columns)
  have 1: "\<exists>final. merge_left monthly ?D = Inr final
          \<and> length (rows final) = length (rows monthly)
          \<and> rows final = map (\<lambda>a. a @ [case_count ?D (join_key (columns monthly) a)]) (rows monthly)"
    using f r by (simp add: att)
  have 2: "case_count ?D (join_key (columns ?D) b) = b ! 2" if "b \<in> set (rows ?D)" for b
    using find_unique[OF dengue_df_keys_distinct that] by (simp add: case_count_def pos)
  have 3: "case_count ?D k = None" if "\<forall>b \<in> set (rows ?D). join_key (columns ?D) b \<noteq> k" for k
  proof -
    have "find (\<lambda>b. join_key (columns ?D) b = k) (rows ?D) = None"
      using that by (simp add: find_None_iff)
    then show ?thesis by (simp add: case_count_def)
  qed
  from dengue_df_ok 1 2 3 show ?thesis by blast
qed

theorem left_join_keeps_every_aggregate_row_witness:
  "''Year'' \<in> set (columns two_months) \<and> ''Month'' \<in> set (columns two_months)
   \<and> merge_left two_months (projr dengue_df) =
       Inr \<lparr>columns = [''Year'', ''Month'', ''T2M'', ''PRECTOTCORR'', ''Dengue Cases''],
             rows = [[Some 2019, Some 7, Some 30, Some 5, Some 27],
                     [Some 2030, Some 1, Some 10, Some 1, None]]\<rparr>"
proof -
  have y: "''Year'' \<in> set (columns two_months)" and m: "''Month'' \<in> set (columns two_months)"
    by (simp_all add: two_months_def)
  from left_join_keeps_every_aggregate_row[OF y m]
  obtain final where f: "merge_left two_months (projr dengue_df) = Inr final"
    and r: "rows final = map (\<lambda>a. a @ [case_count (projr dengue_df) (join_key (columns two_months) a)]) (rows two_months)"
    by blast
  have c: "columns final = [''Year'', ''Month'', ''T2M'', ''PRECTOTCORR'', ''Dengue Cases'']"
    using f by (auto simp: merge_left_def two_months_def dengue_df_columns Let_def split: if_splits)
  have k1: "case_count (projr dengue_df) (Some 2019, Some 7) = Some 27"
    unfolding case_count_def dengue_df_columns dengue_df_rows
    by (simp add: dengue_melted_rows dengue_data_def month_mapping_def join_key_def)
  have k2: "case_count (projr dengue_df) (Some 2030, Some 1) = None"
    unfolding case_count_def dengue_df_columns dengue_df_rows
    by (simp add: dengue_melted_rows dengue_data_def month_mapping_def join_key_def)
  have "rows final = [[Some 2019, Some 7, Some 30, Some 5, Some 27], [Some 2030, Some 1, Some 10, Some 1, None]]"
    unfolding r by (simp add: two_months_def join_key_def k1 k2)
  with c have "final = \<lparr>columns = [''Year'', ''Month'', ''T2M'', ''PRECTOTCORR'', ''Dengue Cases''],
             rows = [[Some 2019, Some 7, Some 30, Some 5, Some 27],
                     [Some 2030, Some 1, Some 10, Some 1, None]]\<rparr>"
    by (cases final) simp
  with f y m show ?thesis by simp
qed

lemma process_monthly_data_shape:
  assumes "rectangular (columns data) (map snd (rows data))"
    and "process_monthly_data numeric_only epoch parse data = Inr (data', monthly)"
  shows "\<exists>rest. columns monthly = ''Year'' # ''Month'' # rest"
    and "\<forall>a \<in> set (rows monthly). \<exists>y m rest. a = Some y # Some m # rest"
proof -
  obtain stamps where s: "to_datetime parse (map fst (rows data)) = Inr stamps"
    using assms(2) by (auto simp: process_monthly_data_def split: sum.splits)
  have "monthly = \<lparr>columns = ''Year'' # ''Month'' # (if numeric_only then [] else [''Date'']) @ value_columns (columns data),
          rows = map (\<lambda>(y, m). Some y # Some m #
                        (if numeric_only then [] else [month_stamp_mean epoch parse data (y, m)]) @
                        map (month_mean parse data (y, m)) (value_columns (columns data)))
                     (map fst (group_rows (year_month parse) (rows data)))\<rparr>"
    using assms(2) process_monthly_data_assigned[OF s, of numeric_only epoch]
          groupby_mean_assigned[OF assms(1), of numeric_only epoch parse]
    by simp
  then show "\<exists>rest. columns monthly = ''Year'' # ''Month'' # rest"
    and "\<forall>a \<in> set (rows monthly). \<exists>y m rest. a = Some y # Some m # rest"
    by auto
qed

lemma one_day_per_month_processed:
  "process_monthly_data True days_from_civil yyyymmdd one_day_per_month =
     Inr (\<lparr>columns = [''T2M'', ''PRECTOTCORR'', ''Year'', ''Month''],
           rows = [(Stamp (2019, 8, 1), [Some 28, Some 0, Some 2019, Some 8]),
                   (Stamp (2019, 7, 15), [Some 30, Some 5, Some 2019, Some 7])]\<rparr>,
          \<lparr>columns = [''Year'', ''Month'', ''T2M'', ''PRECTOTCORR''],
           rows = [[Some 2019, Some 7, Some 30, Some 5], [Some 2019, Some 8, Some 28, Some 0]]\<rparr>)"
  by (simp add: process_monthly_data_def one_day_per_month_def yyyymmdd_def digit_value_def
        set_date_def set_column_def put_name_def put_cell_def dt_year_def dt_month_def
        groupby_mean_def group_rows_def key2_def mean_def has_text_def Let_def)

text \<open>
  Claim C10. A reshaped case record has a missing month number exactly when its label is
  not a key of \<^verbatim>\<open>month_mapping\<close>, which holds for the label \<^verbatim>\<open>Total\<close>. The keys of a
  monthly aggregate have no missing component, so no row with a missing month matches a
  row of the aggregate, and the join is the same as the join with those rows removed. This
  holds whichever columns the installed pandas averages.
\<close>

theorem null_month_rows_never_join:
  assumes "rectangular (columns data) (map snd (rows data))"
    and "process_monthly_data numeric_only epoch parse data = Inr (data', monthly)"
  shows "\<not> isl dengue_melted \<and> \<not> isl dengue_df
     \<and> map (\<lambda>b. b ! 1 = None) (rows (projr dengue_df))
         = map (\<lambda>(y, label, v). label \<notin> fst ` set month_mapping) (rows (projr dengue_melted))
     \<and> ''Total'' \<notin> fst ` set month_mapping
     \<and> (\<forall>a \<in> set (rows monthly). \<forall>b \<in> set (rows (projr dengue_df)).
           b ! 1 = None \<longrightarrow> join_key (columns (projr dengue_df)) b \<noteq> join_key (columns monthly) a)
     \<and> merge_left monthly (projr dengue_df)
         = merge_left monthly ((projr dengue_df)\<lparr>rows := filter (\<lambda>b. b ! 1 \<noteq> None) (rows (projr dengue_df))\<rparr>)"
proof -
  let ?D = "projr dengue_df"
  note shape = process_monthly_data_shape[OF assms]
  have 1: "map (\<lambda>b. b ! 1 = None) (rows ?D)
         = map (\<lambda>(y, label, v). label \<notin> fst ` set month_mapping) (rows (projr dengue_melted))"
    by (simp add: dengue_df_rows split_def comp_def map_of_eq_None_iff)
  have 2: "''Total'' \<notin> fst ` set month_mapping"
    by (simp add: month_mapping_def)
  have key: "snd (join_key (columns monthly) a) \<noteq> None" if "a \<in> set (rows monthly)" for a
  proof -
    from shape(2) that obtain y m rest where "a = Some y # Some m # rest" by blast
    moreover from shape(1) obtain names where "columns monthly = ''Year'' # ''Month'' # names" by blast
    ultimately show ?thesis by (simp add: join_key_def)
  qed
  have kd: "snd (join_key (columns ?D) b) = b ! 1" for b
    by (simp add: join_key_def dengue_df_columns)
  have 3: "\<forall>a \<in> set (rows monthly). \<forall>b \<in> set (rows ?D).
           b ! 1 = None \<longrightarrow> join_key (columns ?D) b \<noteq> join_key (columns monthly) a"
    using key kd by metis
  have same: "filter (\<lambda>b. join_key (columns ?D) b = join_key (columns monthly) a)
                  (filter (\<lambda>b. b ! 1 \<noteq> None) (rows ?D))
            = filter (\<lambda>b. join_key (columns ?D) b = join_key (columns monthly) a) (rows ?D)"
    if "a \<in> set (rows monthly)" for a
    unfolding filter_filter using key[OF that] kd by (intro filter_cong) (auto, metis)
  have concat_eq: "concat (map (\<lambda>a. case filter (\<lambda>b. join_key (columns ?D) b = join_key (columns monthly) a)
                               (filter (\<lambda>b. b ! 1 \<noteq> None) (rows ?D)) of
                     [] \<Rightarrow> [a @ replicate n None]
                   | ms \<Rightarrow> map (\<lambda>b. a @ other_cells (columns ?D) b) ms) (rows monthly))
      = concat (map (\<lambda>a. case filter (\<lambda>b. join_key (columns ?D) b = join_key (columns monthly) a) (rows ?D) of
                     [] \<Rightarrow> [a @ replicate n None]
                   | ms \<Rightarrow> map (\<lambda>b. a @ other_cells (columns ?D) b) ms) (rows monthly))" for n
    by (rule arg_cong[where f = concat], rule map_cong[OF refl]) (simp only: same)
  have 4: "merge_left monthly ?D
         = merge_left monthly (?D\<lparr>rows := filter (\<lambda>b. b ! 1 \<noteq> None) (rows ?D)\<rparr>)"
  proof -
    let ?F = "?D\<lparr>rows := filter (\<lambda>b. b ! 1 \<noteq> None) (rows ?D)\<rparr>"
    have c: "columns ?F = columns ?D"
      by simp
    have r: "rows ?F = filter (\<lambda>b. b ! 1 \<noteq> None) (rows ?D)"
      by simp
    show ?thesis
      unfolding merge_left_def Let_def c r concat_eq ..
  qed
  from dengue_melted_ok dengue_df_ok 1 2 3 4 show ?thesis by blast
qed

theorem null_month_rows_never_join_witness:
  "rectangular (columns one_day_per_month) (map snd (rows one_day_per_month))
   \<and> process_monthly_data True days_from_civil yyyymmdd one_day_per_month =
     Inr (\<lparr>columns = [''T2M'', ''PRECTOTCORR'', ''Year'', ''Month''],
           rows = [(Stamp (2019, 8, 1), [Some 28, Some 0, Some 2019, Some 8]),
                   (Stamp (2019, 7, 15), [Some 30, Some 5, Some 2019, Some 7])]\<rparr>,
          \<lparr>columns = [''Year'', ''Month'', ''T2M'', ''PRECTOTCORR''],
           rows = [[Some 2019, Some 7, Some 30, Some 5], [Some 2019, Some 8, Some 28, Some 0]]\<rparr>)
   \<and> merge_left \<lparr>columns = [''Year'', ''Month'', ''T2M'', ''PRECTOTCORR''],
           rows = [[Some 2019, Some 7, Some 30, Some 5], [Some 2019, Some 8, Some 28, Some 0]]\<rparr> (projr dengue_df)
     = merge_left \<lparr>columns = [''Year'', ''Month'', ''T2M'', ''PRECTOTCORR''],
           rows = [[Some 2019, Some 7, Some 30, Some 5], [Some 2019, Some 8, Some 28, Some 0]]\<rparr>
         ((projr dengue_df)\<lparr>rows := filter (\<lambda>b. b ! 1 \<noteq> None) (rows (projr dengue_df))\<rparr>)"
proof -
  have r: "rectangular (columns one_day_per_month) (map snd (rows one_day_per_month))"
    by (simp add: rectangular_def one_day_per_month_def)
  from null_month_rows_never_join[OF r one_day_per_month_processed] r one_day_per_month_processed
  show ?thesis by blast
qed

section \<open>The row filter and the joined table\<close>

lemma fetch_missing_reading:
  "fetch_nasa_data missing_reading lat lon start_date end_date parameters =
     Inr ([(''T2M'', \<lparr>columns = [''T2M''], rows = [(Text ''20190715'', [Some (- 999)])]\<rparr>),
           (''PRECTOTCORR'', \<lparr>columns = [''PRECTOTCORR''], rows = [(Text ''20190715'', [Some 5])]\<rparr>)], [])"
  by (simp add: fetch_nasa_data_def missing_reading_def parameters_def DataFrame_def)

lemma concat_missing_reading:
  "concat_columns [\<lparr>columns = [''T2M''], rows = [(Text ''20190715'', [Some (- 999)])]\<rparr>,
                   \<lparr>columns = [''PRECTOTCORR''], rows = [(Text ''20190715'', [Some 5])]\<rparr>]
   = Inr \<lparr>columns = [''T2M'', ''PRECTOTCORR''], rows = [(Text ''20190715'', [Some (- 999), Some 5])]\<rparr>"
  by (simp add: concat_columns_def select_def Let_def)

lemma process_missing_reading:
  "process_monthly_data True epoch yyyymmdd \<lparr>columns = [''T2M'', ''PRECTOTCORR''], rows = [(Stamp (2019, 7, 15), [Some (- 999), Some 5])]\<rparr>
   = Inr (\<lparr>columns = [''T2M'', ''PRECTOTCORR'', ''Year'', ''Month''],
           rows = [(Stamp (2019, 7, 15), [Some (- 999), Some 5, Some 2019, Some 7])]\<rparr>,
          \<lparr>columns = [''Year'', ''Month'', ''T2M'', ''PRECTOTCORR''],
           rows = [[Some 2019, Some 7, Some (- 999), Some 5]]\<rparr>)"
  by (simp add: process_monthly_data_def set_date_def set_column_def put_name_def put_cell_def
        dt_year_def dt_month_def groupby_mean_def group_rows_def key2_def mean_def Let_def)

lemma process_missing_reading_dated:
  "process_monthly_data False epoch yyyymmdd \<lparr>columns = [''T2M'', ''PRECTOTCORR''], rows = [(Stamp (2019, 7, 15), [Some (- 999), Some 5])]\<rparr>
   = Inr (\<lparr>columns = [''T2M'', ''PRECTOTCORR'', ''Year'', ''Month''],
           rows = [(Stamp (2019, 7, 15), [Some (- 999), Some 5, Some 2019, Some 7])]\<rparr>,
          \<lparr>columns = [''Year'', ''Month'', ''Date'', ''T2M'', ''PRECTOTCORR''],
           rows = [[Some 2019, Some 7, Some (epoch (2019, 7, 15)), Some (- 999), Some 5]]\<rparr>)"
  by (simp add: process_monthly_data_def set_date_def set_column_def put_name_def put_cell_def
        dt_year_def dt_month_def groupby_mean_def group_rows_def key2_def mean_def has_text_def
        timestamp_def Let_def)

lemma merge_missing_reading:
  "merge_left \<lparr>columns = [''Year'', ''Month'', ''T2M'', ''PRECTOTCORR''],
           rows = [[Some 2019, Some 7, Some (- 999), Some 5]]\<rparr> (projr dengue_df)
   = Inr \<lparr>columns = [''Year'', ''Month'', ''T2M'', ''PRECTOTCORR'', ''Dengue Cases''],
           rows = [[Some 2019, Some 7, Some (- 999), Some 5, Some 27]]\<rparr>"
  by (simp add: merge_left_def dengue_df_value map_month_def dengue_melted_rows dengue_data_def
        month_mapping_def join_key_def other_cells_def Let_def)

lemma merge_missing_reading_dated:
  "merge_left \<lparr>columns = [''Year'', ''Month'', ''Date'', ''T2M'', ''PRECTOTCORR''],
           rows = [[Some 2019, Some 7, Some t, Some (- 999), Some 5]]\<rparr> (projr dengue_df)
   = Inr \<lparr>columns = [''Year'', ''Month'', ''Date'', ''T2M'', ''PRECTOTCORR'', ''Dengue Cases''],
           rows = [[Some 2019, Some 7, Some t, Some (- 999), Some 5, Some 27]]\<rparr>"
  by (simp add: merge_left_def dengue_df_value map_month_def dengue_melted_rows dengue_data_def
        month_mapping_def join_key_def other_cells_def Let_def)

lemma overview_missing_reading:
  "yearly_overview \<lparr>columns = [''Year'', ''Month'', ''T2M'', ''PRECTOTCORR'', ''Dengue Cases''],
           rows = [[Some 2019, Some 7, Some (- 999), Some 5, Some 27]]\<rparr>
   = Inr \<lparr>columns = [''Year'', ''T2M'', ''PRECTOTCORR'', ''Dengue Cases''],
          rows = [[Some 2019, Some (- 999), Some 5, Some 27]]\<rparr>"
  by (simp add: yearly_overview_def group_rows_def key1_def mean_def total_def Let_def)

lemma overview_missing_reading_dated:
  "yearly_overview \<lparr>columns = [''Year'', ''Month'', ''Date'', ''T2M'', ''PRECTOTCORR'', ''Dengue Cases''],
           rows = [[Some 2019, Some 7, Some t, Some (- 999), Some 5, Some 27]]\<rparr>
   = Inr \<lparr>columns = [''Year'', ''T2M'', ''PRECTOTCORR'', ''Dengue Cases''],
          rows = [[Some 2019, Some (- 999), Some 5, Some 27]]\<rparr>"
  by (simp add: yearly_overview_def group_rows_def key1_def mean_def total_def Let_def)

text \<open>
  Claim C7 at the input \<open>missing_reading\<close>: the July 2019 row has temperature -999. The
  row filter of lines 129--130 empties \<^verbatim>\<open>monthly_data\<close>, but \<^verbatim>\<open>final_df\<close> was merged before
  and keeps the row, and the yearly overview and its chart are computed from \<^verbatim>\<open>final_df\<close>.
  This is so whichever columns the installed pandas averages.
\<close>

theorem filter_does_not_reach_joined_table:
  "monthly_data (pipeline numeric_only epoch yyyymmdd missing_reading (projr dengue_df)) =
      Some \<lparr>columns = ''Year'' # ''Month'' # (if numeric_only then [] else [''Date'']) @ [''T2M'', ''PRECTOTCORR''],
            rows = []\<rparr>
   \<and> final_df (pipeline numeric_only epoch yyyymmdd missing_reading (projr dengue_df)) =
      Some \<lparr>columns = ''Year'' # ''Month'' # (if numeric_only then [] else [''Date'']) @
                      [''T2M'', ''PRECTOTCORR'', ''Dengue Cases''],
            rows = [Some 2019 # Some 7 # (if numeric_only then [] else [Some (epoch (2019, 7, 15))]) @
                    [Some (- 999), Some 5, Some 27]]\<rparr>
   \<and> year_avg (pipeline numeric_only epoch yyyymmdd missing_reading (projr dengue_df)) =
      Some \<lparr>columns = [''Year'', ''T2M'', ''PRECTOTCORR'', ''Dengue Cases''],
            rows = [[Some 2019, Some (- 999), Some 5, Some 27]]\<rparr>
   \<and> StChart ''Yearly Temperature and Rainfall Trends''
        \<lparr>columns = [''Year'', ''T2M'', ''PRECTOTCORR'', ''Dengue Cases''],
         rows = [[Some 2019, Some (- 999), Some 5, Some 27]]\<rparr>
       \<in> set (events (pipeline numeric_only epoch yyyymmdd missing_reading (projr dengue_df)))"
proof (cases numeric_only)
  case True
  then show ?thesis
    by (simp add: pipeline_def trend_charts_def fetch_missing_reading concat_missing_reading yyyymmdd_def
          digit_value_def set_date_def process_missing_reading merge_missing_reading overview_missing_reading
          filter_ge_def show_event_def start_state_def Let_def)
next
  case False
  then show ?thesis
    by (simp add: pipeline_def trend_charts_def fetch_missing_reading concat_missing_reading yyyymmdd_def
          digit_value_def set_date_def process_missing_reading_dated merge_missing_reading_dated
          overview_missing_reading_dated filter_ge_def show_event_def start_state_def Let_def)
qed

end
